theory Spec2Isabelle
  imports Main "HOL-Library.Sublist"
begin

section \<open>Go values: errors, panics, durations\<close>

text \<open>
  The embedded file is \<^verbatim>\<open>pkg/k8s/apis/cilium.io/v2/client/register.go\<close>.
  A Go \<^verbatim>\<open>error\<close> value is a member of the datatype \<open>error\<close>; the nil error is
  \<open>None\<close> of \<open>error option\<close>. The constructors are the error shapes the file creates or
  inspects: a status error of the API machinery with its reason, the plain string error of
  \<^verbatim>\<open>goerrors.New\<close>, the wrapping error of \<^verbatim>\<open>fmt.Errorf\<close> with \<^verbatim>\<open>%w\<close>, and the timeout
  error of \<^verbatim>\<open>wait.Poll\<close>.
\<close>

datatype StatusReason =
    StatusReasonNotFound
  | StatusReasonAlreadyExists
  | StatusReasonConflict
  | StatusReasonUnknown

datatype error =
    StatusError StatusReason string
  | errorString string
  | wrapError string error
  | ErrWaitTimeout

text \<open>\<^verbatim>\<open>err.Error()\<close>: the message of an error.\<close>

fun Error :: "error \<Rightarrow> string" where
  "Error (StatusError r m) = m"
| "Error (errorString m) = m"
| "Error (wrapError m e) = m"
| "Error ErrWaitTimeout = ''timed out waiting for the condition''"

text \<open>\<^verbatim>\<open>errors.Unwrap\<close>: only the wrapping error has an inner error.\<close>

fun Unwrap :: "error \<Rightarrow> error option" where
  "Unwrap (wrapError m e) = Some e"
| "Unwrap e = None"

text \<open>The chain of errors reachable from an error by repeated unwrapping, itself first.\<close>

fun chain :: "error \<Rightarrow> error list" where
  "chain (wrapError m e) = wrapError m e # chain e"
| "chain e = [e]"

text \<open>\<^verbatim>\<open>goerrors.New(text)\<close>.\<close>

definition New :: "string \<Rightarrow> error" where
  "New msg = errorString msg"

text \<open>
  \<^verbatim>\<open>fmt.Errorf(prefix + "%w", err)\<close>: the message is the prefix followed by the message of
  \<open>err\<close>, and \<open>err\<close> is kept as the wrapped error.
\<close>

definition Errorf_w :: "string \<Rightarrow> error \<Rightarrow> error" where
  "Errorf_w msg err = wrapError (msg @ Error err) err"

text \<open>\<^verbatim>\<open>fmt.Errorf(prefix + "%v", err)\<close>: only the message of \<open>err\<close> is kept.\<close>

definition Errorf_v :: "string \<Rightarrow> error \<Rightarrow> error" where
  "Errorf_v msg err = errorString (msg @ Error err)"

text \<open>
  \<^verbatim>\<open>errors.IsNotFound\<close> and \<^verbatim>\<open>errors.IsAlreadyExists\<close> of the API machinery read the
  reason of a status error; both are false of the nil error.
\<close>

fun IsNotFound :: "error option \<Rightarrow> bool" where
  "IsNotFound (Some (StatusError r m)) = (r = StatusReasonNotFound)"
| "IsNotFound e = False"

fun IsAlreadyExists :: "error option \<Rightarrow> bool" where
  "IsAlreadyExists (Some (StatusError r m)) = (r = StatusReasonAlreadyExists)"
| "IsAlreadyExists e = False"

text \<open>
  A Go function either returns or panics (an index out of range). \<open>Panic\<close> carries the
  runtime's message.
\<close>

datatype 'a outcome = Panic string | Return 'a

text \<open>\<^verbatim>\<open>time.Duration\<close> counts nanoseconds.\<close>

type_synonym Duration = int

definition Millisecond :: Duration where
  "Millisecond = 1000000"

definition Second :: Duration where
  "Second = 1000000000"

section \<open>The data model\<close>

text \<open>
  The fields of the API types that the file reads or writes. A pointer to a schema is an
  \<open>option\<close> (\<open>None\<close> is nil); the schema payload itself is opaque. The field
  \<^verbatim>\<open>Status\<close> of the object is \<open>StatusV1\<close>, since a condition has a field \<open>Status\<close> too,
  and the field \<^verbatim>\<open>Name\<close> of a version is \<open>VersionName\<close>, since the object's metadata has
  a field \<open>Name\<close>.
\<close>

record ObjectMeta =
  Name :: string
  Labels :: "string \<rightharpoonup> string"

record CustomResourceDefinitionNames =
  Kind :: string
  Plural :: string
  ShortNames :: "string list"
  Singular :: string

record CustomResourceDefinitionVersion =
  VersionName :: string
  Schema :: "string option"

record CustomResourceDefinitionSpec =
  Group :: string
  Names :: CustomResourceDefinitionNames
  Scope :: string
  Versions :: "CustomResourceDefinitionVersion list"

record CustomResourceDefinitionCondition =
  Type :: string
  Status :: string
  Reason :: string

record CustomResourceDefinitionStatus =
  Conditions :: "CustomResourceDefinitionCondition list"

record CustomResourceDefinition =
  ObjectMeta :: ObjectMeta
  Spec :: CustomResourceDefinitionSpec
  StatusV1 :: CustomResourceDefinitionStatus

text \<open>The condition types and statuses of \<^verbatim>\<open>apiextensions/v1\<close> that the file compares with.\<close>

definition Established :: string where
  "Established = ''Established''"

definition NamesAccepted :: string where
  "NamesAccepted = ''NamesAccepted''"

definition ConditionTrue :: string where
  "ConditionTrue = ''True''"

definition ConditionFalse :: string where
  "ConditionFalse = ''False''"

text \<open>
  The constants of package \<^verbatim>\<open>k8sconstv2\<close> and the functions of package \<^verbatim>\<open>versioncheck\<close>
  are declared outside the embedded file, so they are parameters, gathered in one record.
  \<open>Version\<close> parses a label (\<open>Inl\<close> is the parse error), \<open>LT\<close> is the strict order of
  parsed versions, and \<open>comparableCRDSchemaVersion\<close> is the package variable of that name,
  already initialised.
\<close>

record 'v k8sconst =
  CustomResourceDefinitionSchemaVersionKey :: string
  CustomResourceDefinitionSchemaVersion :: string
  CustomResourceDefinitionGroup :: string
  Version :: "string \<Rightarrow> error + 'v"
  LT :: "'v \<Rightarrow> 'v \<Rightarrow> bool"
  comparableCRDSchemaVersion :: 'v

section \<open>The baseline object and the staleness check\<close>

definition constructV1CRD ::
  "'v k8sconst \<Rightarrow> string \<Rightarrow> CustomResourceDefinition \<Rightarrow> CustomResourceDefinition" where
  "constructV1CRD K name template =
     \<lparr> ObjectMeta = \<lparr> Name = name,
          Labels = [CustomResourceDefinitionSchemaVersionKey K
                      \<mapsto> CustomResourceDefinitionSchemaVersion K] \<rparr>,
       Spec = \<lparr> Group = CustomResourceDefinitionGroup K,
          Names = \<lparr> Kind = Kind (Names (Spec template)),
                    Plural = Plural (Names (Spec template)),
                    ShortNames = ShortNames (Names (Spec template)),
                    Singular = Singular (Names (Spec template)) \<rparr>,
          Scope = Scope (Spec template),
          Versions = Versions (Spec template) \<rparr>,
       StatusV1 = \<lparr> Conditions = [] \<rparr> \<rparr>"

text \<open>
  \<^verbatim>\<open>needsUpdateV1\<close>. The read \<^verbatim>\<open>clusterCRD.Spec.Versions[0]\<close> has no length guard: on an
  empty list the Go runtime panics, which is the first branch here.
\<close>

definition needsUpdateV1 :: "'v k8sconst \<Rightarrow> CustomResourceDefinition \<Rightarrow> bool outcome" where
  "needsUpdateV1 K clusterCRD =
     (case Versions (Spec clusterCRD) of
        [] \<Rightarrow> Panic ''index out of range [0] with length 0''
      | v0 # rest \<Rightarrow>
          if Schema v0 = None then Return True
          else (case Labels (ObjectMeta clusterCRD) (CustomResourceDefinitionSchemaVersionKey K) of
                  None \<Rightarrow> Return True
                | Some v \<Rightarrow>
                    (case Version K v of
                       Inl err \<Rightarrow> Return True
                     | Inr clusterVersion \<Rightarrow>
                         if LT K clusterVersion (comparableCRDSchemaVersion K)
                         then Return True
                         else Return False)))"

section \<open>The v1beta1 data model and its staleness check\<close>

text \<open>
  The v1beta1 object carries its schema in the field \<^verbatim>\<open>Spec.Validation\<close>. Its names and
  conditions have the fields of their v1 counterparts, and its condition types and statuses
  are the same strings, so the same records and constants stand for them.
\<close>

record CustomResourceDefinitionSpecV1beta1 =
  GroupV1beta1 :: string
  NamesV1beta1 :: CustomResourceDefinitionNames
  ScopeV1beta1 :: string
  Validation :: "string option"

record CustomResourceDefinitionV1beta1 =
  ObjectMetaV1beta1 :: ObjectMeta
  SpecV1beta1 :: CustomResourceDefinitionSpecV1beta1
  StatusV1beta1 :: CustomResourceDefinitionStatus

definition needsUpdateV1beta1 ::
  "'v k8sconst \<Rightarrow> CustomResourceDefinitionV1beta1 \<Rightarrow> bool" where
  "needsUpdateV1beta1 K clusterCRD =
     (if Validation (SpecV1beta1 clusterCRD) = None then True
      else (case Labels (ObjectMetaV1beta1 clusterCRD)
                   (CustomResourceDefinitionSchemaVersionKey K) of
              None \<Rightarrow> True
            | Some v \<Rightarrow>
                (case Version K v of
                   Inl err \<Rightarrow> True
                 | Inr clusterVersion \<Rightarrow>
                     if LT K clusterVersion (comparableCRDSchemaVersion K) then True
                     else False)))"

text \<open>
  The two conversion functions of the API machinery are parameters; \<open>'i\<close> is the internal
  representation between the two wire shapes.
\<close>

record 'i conversions =
  Convert_v1_To_apiextensions :: "CustomResourceDefinition \<Rightarrow> error + 'i"
  Convert_apiextensions_To_v1beta1 :: "'i \<Rightarrow> error + CustomResourceDefinitionV1beta1"

definition convertToV1Beta1CRD ::
  "'i conversions \<Rightarrow> CustomResourceDefinition \<Rightarrow> error + CustomResourceDefinitionV1beta1" where
  "convertToV1Beta1CRD C crd =
     (case Convert_v1_To_apiextensions C crd of
        Inl err \<Rightarrow>
          Inl (Errorf_v ''unable to convert v1 CRD to internal representation: '' err)
      | Inr internalCRD \<Rightarrow>
          (case Convert_apiextensions_To_v1beta1 C internalCRD of
             Inl err \<Rightarrow>
               Inl (Errorf_v ''unable to convert internally represented CRD to v1beta1: '' err)
           | Inr v1beta1CRD \<Rightarrow> Inr v1beta1CRD))"

section \<open>The control plane\<close>

text \<open>
  The typed clients are interfaces implemented outside the embedded file. A client is a
  record of four operations on the state \<open>'s\<close> of the API server. As in Go, \<open>Get\<close>,
  \<open>Create\<close> and \<open>Update\<close> return an object together with an error (the object is what the
  result variable holds when the error is not nil).
\<close>

record 's CustomResourceDefinitionInterface =
  Get :: "string \<Rightarrow> 's \<Rightarrow> (CustomResourceDefinition \<times> error option) \<times> 's"
  Create :: "CustomResourceDefinition \<Rightarrow> 's \<Rightarrow> (CustomResourceDefinition \<times> error option) \<times> 's"
  Update :: "CustomResourceDefinition \<Rightarrow> 's \<Rightarrow> (CustomResourceDefinition \<times> error option) \<times> 's"
  Delete :: "string \<Rightarrow> 's \<Rightarrow> error option \<times> 's"

record 's CustomResourceDefinitionInterfaceV1beta1 =
  GetV1beta1 ::
    "string \<Rightarrow> 's \<Rightarrow> (CustomResourceDefinitionV1beta1 \<times> error option) \<times> 's"
  CreateV1beta1 ::
    "CustomResourceDefinitionV1beta1 \<Rightarrow> 's \<Rightarrow> (CustomResourceDefinitionV1beta1 \<times> error option) \<times> 's"
  UpdateV1beta1 ::
    "CustomResourceDefinitionV1beta1 \<Rightarrow> 's \<Rightarrow> (CustomResourceDefinitionV1beta1 \<times> error option) \<times> 's"
  DeleteV1beta1 :: "string \<Rightarrow> 's \<Rightarrow> error option \<times> 's"

record 's clientset =
  ApiextensionsV1 :: "'s CustomResourceDefinitionInterface"
  ApiextensionsV1beta1 :: "'s CustomResourceDefinitionInterfaceV1beta1"

text \<open>
  The state the code runs in: the API server, the calls issued so far to the collaborators
  (a history kept to state which calls a run makes), and the time, which only the poller's
  waits advance.
\<close>

datatype call =
    CallGet string
  | CallCreate CustomResourceDefinition
  | CallUpdate CustomResourceDefinition
  | CallDelete string
  | CallGetV1beta1 string
  | CallCreateV1beta1 CustomResourceDefinitionV1beta1
  | CallUpdateV1beta1 CustomResourceDefinitionV1beta1
  | CallDeleteV1beta1 string
  | CallPoll Duration Duration

record 's world =
  apiserver :: 's
  calls :: "call list"
  now :: Duration

definition doGet ::
  "'s CustomResourceDefinitionInterface \<Rightarrow> string \<Rightarrow> 's world \<Rightarrow>
   (CustomResourceDefinition \<times> error option) \<times> 's world" where
  "doGet client name w =
     (case Get client name (apiserver w) of
        (r, s) \<Rightarrow> (r, w\<lparr>apiserver := s, calls := calls w @ [CallGet name]\<rparr>))"

definition doCreate ::
  "'s CustomResourceDefinitionInterface \<Rightarrow> CustomResourceDefinition \<Rightarrow> 's world \<Rightarrow>
   (CustomResourceDefinition \<times> error option) \<times> 's world" where
  "doCreate client obj w =
     (case Create client obj (apiserver w) of
        (r, s) \<Rightarrow> (r, w\<lparr>apiserver := s, calls := calls w @ [CallCreate obj]\<rparr>))"

definition doUpdate ::
  "'s CustomResourceDefinitionInterface \<Rightarrow> CustomResourceDefinition \<Rightarrow> 's world \<Rightarrow>
   (CustomResourceDefinition \<times> error option) \<times> 's world" where
  "doUpdate client obj w =
     (case Update client obj (apiserver w) of
        (r, s) \<Rightarrow> (r, w\<lparr>apiserver := s, calls := calls w @ [CallUpdate obj]\<rparr>))"

definition doDelete ::
  "'s CustomResourceDefinitionInterface \<Rightarrow> string \<Rightarrow> 's world \<Rightarrow> error option \<times> 's world" where
  "doDelete client name w =
     (case Delete client name (apiserver w) of
        (r, s) \<Rightarrow> (r, w\<lparr>apiserver := s, calls := calls w @ [CallDelete name]\<rparr>))"

definition doGetV1beta1 ::
  "'s CustomResourceDefinitionInterfaceV1beta1 \<Rightarrow> string \<Rightarrow> 's world \<Rightarrow>
   (CustomResourceDefinitionV1beta1 \<times> error option) \<times> 's world" where
  "doGetV1beta1 client name w =
     (case GetV1beta1 client name (apiserver w) of
        (r, s) \<Rightarrow> (r, w\<lparr>apiserver := s, calls := calls w @ [CallGetV1beta1 name]\<rparr>))"

definition doCreateV1beta1 ::
  "'s CustomResourceDefinitionInterfaceV1beta1 \<Rightarrow> CustomResourceDefinitionV1beta1 \<Rightarrow> 's world \<Rightarrow>
   (CustomResourceDefinitionV1beta1 \<times> error option) \<times> 's world" where
  "doCreateV1beta1 client obj w =
     (case CreateV1beta1 client obj (apiserver w) of
        (r, s) \<Rightarrow> (r, w\<lparr>apiserver := s, calls := calls w @ [CallCreateV1beta1 obj]\<rparr>))"

definition doUpdateV1beta1 ::
  "'s CustomResourceDefinitionInterfaceV1beta1 \<Rightarrow> CustomResourceDefinitionV1beta1 \<Rightarrow> 's world \<Rightarrow>
   (CustomResourceDefinitionV1beta1 \<times> error option) \<times> 's world" where
  "doUpdateV1beta1 client obj w =
     (case UpdateV1beta1 client obj (apiserver w) of
        (r, s) \<Rightarrow> (r, w\<lparr>apiserver := s, calls := calls w @ [CallUpdateV1beta1 obj]\<rparr>))"

definition doDeleteV1beta1 ::
  "'s CustomResourceDefinitionInterfaceV1beta1 \<Rightarrow> string \<Rightarrow> 's world \<Rightarrow>
   error option \<times> 's world" where
  "doDeleteV1beta1 client name w =
     (case DeleteV1beta1 client name (apiserver w) of
        (r, s) \<Rightarrow> (r, w\<lparr>apiserver := s, calls := calls w @ [CallDeleteV1beta1 name]\<rparr>))"

section \<open>The poller\<close>

text \<open>
  A condition function is a Go closure: it reads and assigns one captured variable of type
  \<open>'c\<close> (the object last fetched) and talks to the control plane, so it maps the pair of
  both to its two results and the new pair.
\<close>

type_synonym ('c, 's) conditionFn =
  "'c \<times> 's world \<Rightarrow> (bool \<times> error option) outcome \<times> ('c \<times> 's world)"

text \<open>
  Modelled from the spec: \<^verbatim>\<open>wait.Poll\<close> of the API machinery, which \<open>defaultPoll\<close> calls
  and which is not in the embedded file. Section 4.3: it invokes the predicate repeatedly at
  the fixed interval until the predicate reports success, reports an error (terminal), or
  the timeout elapses without resolution (a distinct timeout error). Each attempt comes
  after a wait of one interval, and the attempts that fit into the timeout are
  \<open>timeout div interval\<close>; \<open>pollLoop n\<close> is the loop with \<open>n\<close> attempts left.
\<close>

fun pollLoop ::
  "nat \<Rightarrow> Duration \<Rightarrow> ('c, 's) conditionFn \<Rightarrow> 'c \<times> 's world \<Rightarrow>
   error option outcome \<times> ('c \<times> 's world)" where
  "pollLoop 0 interval conditionFn st = (Return (Some ErrWaitTimeout), st)"
| "pollLoop (Suc n) interval conditionFn (c, w) =
     (case conditionFn (c, w\<lparr>now := now w + interval\<rparr>) of
        (Panic m, st) \<Rightarrow> (Panic m, st)
      | (Return (ok, Some err), st) \<Rightarrow> (Return (Some err), st)
      | (Return (ok, None), st) \<Rightarrow>
          if ok then (Return None, st) else pollLoop n interval conditionFn st)"

text \<open>
  Modelled from the spec: the entry of \<^verbatim>\<open>wait.Poll\<close>, which fixes the number of attempts
  from the timeout and the interval of section 4.3 (60 s at 500 ms: 120 attempts). The time
  is logical: a wait adds its interval, a predicate takes none. The spec says nothing of an
  interval that is not positive; the model refuses it, and the file never passes one.
\<close>

definition waitPoll ::
  "Duration \<Rightarrow> Duration \<Rightarrow> ('c, 's) conditionFn \<Rightarrow> 'c \<times> 's world \<Rightarrow>
   error option outcome \<times> ('c \<times> 's world)" where
  "waitPoll interval timeout conditionFn st =
     (if interval \<le> 0 then (Panic ''non-positive interval for NewTicker'', st)
      else pollLoop (nat (timeout div interval)) interval conditionFn st)"

text \<open>
  The interface \<^verbatim>\<open>poller\<close> has one implementation in the file, the struct
  \<^verbatim>\<open>defaultPoll\<close>, whose method hands its arguments to \<^verbatim>\<open>wait.Poll\<close>. The call is
  recorded with its interval and duration.
\<close>

datatype poller = defaultPoll

definition newDefaultPoller :: poller where
  "newDefaultPoller = defaultPoll"

fun Poll ::
  "poller \<Rightarrow> Duration \<Rightarrow> Duration \<Rightarrow> ('c, 's) conditionFn \<Rightarrow> 'c \<times> 's world \<Rightarrow>
   error option outcome \<times> ('c \<times> 's world)" where
  "Poll defaultPoll interval duration conditionFn (c, w) =
     waitPoll interval duration conditionFn
       (c, w\<lparr>calls := calls w @ [CallPoll interval duration]\<rparr>)"

section \<open>Update if stale\<close>

text \<open>
  The closure handed to the poller in \<^verbatim>\<open>updateV1CRD\<close>. Its captured variable is
  \<^verbatim>\<open>clusterCRD\<close>, assigned by the fetch whether or not the fetch fails. Any error of the write
  is returned as the closure's error.
\<close>

definition updateV1CRD_conditionFn ::
  "'v k8sconst \<Rightarrow> CustomResourceDefinition \<Rightarrow> 's CustomResourceDefinitionInterface \<Rightarrow>
   (CustomResourceDefinition, 's) conditionFn" where
  "updateV1CRD_conditionFn K crd client = (\<lambda>(clusterCRD, w).
     (case doGet client (Name (ObjectMeta crd)) w of
        ((fetched, Some err), w1) \<Rightarrow> (Return (False, Some err), (fetched, w1))
      | ((fetched, None), w1) \<Rightarrow>
          (case needsUpdateV1 K fetched of
             Panic m \<Rightarrow> (Panic m, (fetched, w1))
           | Return stale \<Rightarrow>
               if stale then
                 (let written = fetched
                        \<lparr> ObjectMeta := (ObjectMeta fetched)\<lparr>Labels := Labels (ObjectMeta crd)\<rparr>,
                          Spec := Spec crd \<rparr>
                  in (case doUpdate client written w1 of
                        ((r, None), w2) \<Rightarrow> (Return (True, None), (written, w2))
                      | ((r, Some err), w2) \<Rightarrow> (Return (False, Some err), (written, w2))))
               else (Return (True, None), (fetched, w1)))))"

text \<open>
  \<^verbatim>\<open>updateV1CRD\<close>. The guard reads \<^verbatim>\<open>crd.Spec.Versions[0]\<close> first (a panic on an empty
  list) and, by the short-circuit of \<^verbatim>\<open>&&\<close>, calls \<^verbatim>\<open>needsUpdateV1\<close> only when the
  baseline carries a schema.
\<close>

definition updateV1CRD ::
  "'v k8sconst \<Rightarrow> CustomResourceDefinition \<Rightarrow> CustomResourceDefinition \<Rightarrow>
   's CustomResourceDefinitionInterface \<Rightarrow> poller \<Rightarrow> 's world \<Rightarrow>
   error option outcome \<times> 's world" where
  "updateV1CRD K crd clusterCRD client p w =
     (case Versions (Spec crd) of
        [] \<Rightarrow> (Panic ''index out of range [0] with length 0'', w)
      | v0 # rest \<Rightarrow>
          if Schema v0 \<noteq> None then
            (case needsUpdateV1 K clusterCRD of
               Panic m \<Rightarrow> (Panic m, w)
             | Return stale \<Rightarrow>
                 if stale then
                   (case Poll p (500 * Millisecond) (60 * Second)
                           (updateV1CRD_conditionFn K crd client) (clusterCRD, w) of
                      (Panic m, (c, w1)) \<Rightarrow> (Panic m, w1)
                    | (Return (Some err), (c, w1)) \<Rightarrow> (Return (Some err), w1)
                    | (Return None, (c, w1)) \<Rightarrow> (Return None, w1))
                 else (Return None, w))
          else (Return None, w))"

definition updateV1beta1CRD_conditionFn ::
  "'v k8sconst \<Rightarrow> CustomResourceDefinitionV1beta1 \<Rightarrow>
   's CustomResourceDefinitionInterfaceV1beta1 \<Rightarrow>
   (CustomResourceDefinitionV1beta1, 's) conditionFn" where
  "updateV1beta1CRD_conditionFn K crd client = (\<lambda>(clusterCRD, w).
     (case doGetV1beta1 client (Name (ObjectMetaV1beta1 crd)) w of
        ((fetched, Some err), w1) \<Rightarrow> (Return (False, Some err), (fetched, w1))
      | ((fetched, None), w1) \<Rightarrow>
          if needsUpdateV1beta1 K fetched then
            (let written = fetched
                   \<lparr> ObjectMetaV1beta1 :=
                       (ObjectMetaV1beta1 fetched)\<lparr>Labels := Labels (ObjectMetaV1beta1 crd)\<rparr>,
                     SpecV1beta1 := SpecV1beta1 crd \<rparr>
             in (case doUpdateV1beta1 client written w1 of
                   ((r, None), w2) \<Rightarrow> (Return (True, None), (written, w2))
                 | ((r, Some err), w2) \<Rightarrow> (Return (False, Some err), (written, w2))))
          else (Return (True, None), (fetched, w1))))"

definition updateV1beta1CRD ::
  "'v k8sconst \<Rightarrow> CustomResourceDefinitionV1beta1 \<Rightarrow> CustomResourceDefinitionV1beta1 \<Rightarrow>
   's CustomResourceDefinitionInterfaceV1beta1 \<Rightarrow> poller \<Rightarrow> 's world \<Rightarrow>
   error option outcome \<times> 's world" where
  "updateV1beta1CRD K crd clusterCRD client p w =
     (if Validation (SpecV1beta1 crd) \<noteq> None \<and> needsUpdateV1beta1 K clusterCRD then
        (case Poll p (500 * Millisecond) (60 * Second)
                (updateV1beta1CRD_conditionFn K crd client) (clusterCRD, w) of
           (Panic m, (c, w1)) \<Rightarrow> (Panic m, w1)
         | (Return (Some err), (c, w1)) \<Rightarrow> (Return (Some err), w1)
         | (Return None, (c, w1)) \<Rightarrow> (Return None, w1))
      else (Return None, w))"

section \<open>Wait for ready\<close>

text \<open>
  The \<^verbatim>\<open>for ... range crd.Status.Conditions\<close> loop of the ready closure: \<open>Some\<close> is a
  \<^verbatim>\<open>return\<close> from inside the loop, \<open>None\<close> is the loop running off the end of the list.
\<close>

fun rangeConditions ::
  "CustomResourceDefinitionCondition list \<Rightarrow> (bool \<times> error option) option" where
  "rangeConditions [] = None"
| "rangeConditions (cond # conds) =
     (if Type cond = Established then
        (if Status cond = ConditionTrue then Some (True, None) else rangeConditions conds)
      else if Type cond = NamesAccepted then
        (if Status cond = ConditionFalse then Some (False, Some (New (Reason cond)))
         else rangeConditions conds)
      else rangeConditions conds)"

text \<open>
  The closure handed to the poller in \<^verbatim>\<open>waitForV1CRD\<close>. Its captured variable is \<^verbatim>\<open>crd\<close>:
  the conditions inspected are those of the object fetched by the attempt before.
\<close>

definition waitForV1CRD_conditionFn ::
  "'s CustomResourceDefinitionInterface \<Rightarrow> (CustomResourceDefinition, 's) conditionFn" where
  "waitForV1CRD_conditionFn client = (\<lambda>(crd, w).
     (case rangeConditions (Conditions (StatusV1 crd)) of
        Some r \<Rightarrow> (Return r, (crd, w))
      | None \<Rightarrow>
          (case doGet client (Name (ObjectMeta crd)) w of
             ((fetched, Some err), w1) \<Rightarrow> (Return (False, Some err), (fetched, w1))
           | ((fetched, None), w1) \<Rightarrow> (Return (False, None), (fetched, w1)))))"

text \<open>
  \<^verbatim>\<open>waitForV1CRD\<close>. When the poll fails, the object named by the captured variable is
  deleted. If the deletion fails too, the returned error wraps the deletion's error only;
  otherwise it wraps the poll's error.
\<close>

definition waitForV1CRD ::
  "string \<Rightarrow> CustomResourceDefinition \<Rightarrow> 's CustomResourceDefinitionInterface \<Rightarrow> poller \<Rightarrow>
   's world \<Rightarrow> error option outcome \<times> 's world" where
  "waitForV1CRD crdName crd client p w =
     (case Poll p (500 * Millisecond) (60 * Second) (waitForV1CRD_conditionFn client) (crd, w) of
        (Panic m, (c, w1)) \<Rightarrow> (Panic m, w1)
      | (Return None, (c, w1)) \<Rightarrow> (Return None, w1)
      | (Return (Some err), (c, w1)) \<Rightarrow>
          (case doDelete client (Name (ObjectMeta c)) w1 of
             (Some deleteErr, w2) \<Rightarrow>
               (Return (Some (Errorf_w ''unable to delete CRD: '' deleteErr)), w2)
           | (None, w2) \<Rightarrow>
               (Return (Some (Errorf_w ''error occurred waiting for CRD: '' err)), w2)))"

definition waitForV1beta1CRD_conditionFn ::
  "'s CustomResourceDefinitionInterfaceV1beta1 \<Rightarrow>
   (CustomResourceDefinitionV1beta1, 's) conditionFn" where
  "waitForV1beta1CRD_conditionFn client = (\<lambda>(crd, w).
     (case rangeConditions (Conditions (StatusV1beta1 crd)) of
        Some r \<Rightarrow> (Return r, (crd, w))
      | None \<Rightarrow>
          (case doGetV1beta1 client (Name (ObjectMetaV1beta1 crd)) w of
             ((fetched, Some err), w1) \<Rightarrow> (Return (False, Some err), (fetched, w1))
           | ((fetched, None), w1) \<Rightarrow> (Return (False, None), (fetched, w1)))))"

definition waitForV1beta1CRD ::
  "string \<Rightarrow> CustomResourceDefinitionV1beta1 \<Rightarrow> 's CustomResourceDefinitionInterfaceV1beta1 \<Rightarrow>
   poller \<Rightarrow> 's world \<Rightarrow> error option outcome \<times> 's world" where
  "waitForV1beta1CRD crdName crd client p w =
     (case Poll p (500 * Millisecond) (60 * Second)
             (waitForV1beta1CRD_conditionFn client) (crd, w) of
        (Panic m, (c, w1)) \<Rightarrow> (Panic m, w1)
      | (Return None, (c, w1)) \<Rightarrow> (Return None, w1)
      | (Return (Some err), (c, w1)) \<Rightarrow>
          (case doDeleteV1beta1 client (Name (ObjectMetaV1beta1 c)) w1 of
             (Some deleteErr, w2) \<Rightarrow>
               (Return (Some (Errorf_w ''unable to delete CRD: '' deleteErr)), w2)
           | (None, w2) \<Rightarrow>
               (Return (Some (Errorf_w ''error occurred waiting for CRD: '' err)), w2)))"

section \<open>Reconciling one kind\<close>

text \<open>
  \<^verbatim>\<open>createUpdateV1beta1CRD\<close> and \<^verbatim>\<open>createUpdateCRD\<close>. The part of each after the lookup
  and the creation (from \<^verbatim>\<open>if err != nil\<close> on) is a definition of its own, since two
  branches reach it. The update phase is handed the caller's \<^verbatim>\<open>clusterCRD\<close>; what it
  fetches stays in its own variable, so the wait phase starts from the same object.
\<close>

definition createUpdateV1beta1CRD_rest ::
  "'v k8sconst \<Rightarrow> 's CustomResourceDefinitionInterfaceV1beta1 \<Rightarrow> string \<Rightarrow>
   CustomResourceDefinitionV1beta1 \<Rightarrow> poller \<Rightarrow>
   CustomResourceDefinitionV1beta1 \<times> error option \<Rightarrow> 's world \<Rightarrow>
   error option outcome \<times> 's world" where
  "createUpdateV1beta1CRD_rest K client crdName v1beta1CRD p res w =
     (case res of
        (clusterCRD, Some err) \<Rightarrow> (Return (Some err), w)
      | (clusterCRD, None) \<Rightarrow>
          (case updateV1beta1CRD K v1beta1CRD clusterCRD client p w of
             (Panic m, w1) \<Rightarrow> (Panic m, w1)
           | (Return (Some err), w1) \<Rightarrow> (Return (Some err), w1)
           | (Return None, w1) \<Rightarrow> waitForV1beta1CRD crdName clusterCRD client p w1))"

definition createUpdateV1beta1CRD ::
  "'v k8sconst \<Rightarrow> 'i conversions \<Rightarrow> 's CustomResourceDefinitionInterfaceV1beta1 \<Rightarrow> string \<Rightarrow>
   CustomResourceDefinition \<Rightarrow> poller \<Rightarrow> 's world \<Rightarrow> error option outcome \<times> 's world" where
  "createUpdateV1beta1CRD K C client crdName crd p w =
     (case convertToV1Beta1CRD C crd of
        Inl err \<Rightarrow> (Return (Some err), w)
      | Inr v1beta1CRD \<Rightarrow>
          (case doGetV1beta1 client (Name (ObjectMetaV1beta1 v1beta1CRD)) w of
             (res, w1) \<Rightarrow>
               if IsNotFound (snd res) then
                 (case doCreateV1beta1 client v1beta1CRD w1 of
                    (res2, w2) \<Rightarrow>
                      if IsAlreadyExists (snd res2) then (Return None, w2)
                      else createUpdateV1beta1CRD_rest K client crdName v1beta1CRD p res2 w2)
               else createUpdateV1beta1CRD_rest K client crdName v1beta1CRD p res w1))"

definition createUpdateCRD_rest ::
  "'v k8sconst \<Rightarrow> 's CustomResourceDefinitionInterface \<Rightarrow> string \<Rightarrow>
   CustomResourceDefinition \<Rightarrow> poller \<Rightarrow>
   CustomResourceDefinition \<times> error option \<Rightarrow> 's world \<Rightarrow>
   error option outcome \<times> 's world" where
  "createUpdateCRD_rest K v1CRDClient crdName crd p res w =
     (case res of
        (clusterCRD, Some err) \<Rightarrow> (Return (Some err), w)
      | (clusterCRD, None) \<Rightarrow>
          (case updateV1CRD K crd clusterCRD v1CRDClient p w of
             (Panic m, w1) \<Rightarrow> (Panic m, w1)
           | (Return (Some err), w1) \<Rightarrow> (Return (Some err), w1)
           | (Return None, w1) \<Rightarrow> waitForV1CRD crdName clusterCRD v1CRDClient p w1))"

text \<open>
  \<open>APIExtensionsV1CRD\<close> is the capability that \<^verbatim>\<open>k8sversion.Capabilities()\<close> reports, a
  parameter here.
\<close>

definition createUpdateCRD ::
  "'v k8sconst \<Rightarrow> 'i conversions \<Rightarrow> bool \<Rightarrow> 's clientset \<Rightarrow> string \<Rightarrow>
   CustomResourceDefinition \<Rightarrow> poller \<Rightarrow> 's world \<Rightarrow> error option outcome \<times> 's world" where
  "createUpdateCRD K C APIExtensionsV1CRD cs crdName crd p w =
     (if \<not> APIExtensionsV1CRD then
        createUpdateV1beta1CRD K C (ApiextensionsV1beta1 cs) crdName crd p w
      else
        (let v1CRDClient = ApiextensionsV1 cs in
         (case doGet v1CRDClient (Name (ObjectMeta crd)) w of
            (res, w1) \<Rightarrow>
              if IsNotFound (snd res) then
                (case doCreate v1CRDClient crd w1 of
                   (res2, w2) \<Rightarrow>
                     if IsAlreadyExists (snd res2) then (Return None, w2)
                     else createUpdateCRD_rest K v1CRDClient crdName crd p res2 w2)
              else createUpdateCRD_rest K v1CRDClient crdName crd p res w1)))"

section \<open>Reading the call history\<close>

fun isGet :: "call \<Rightarrow> bool" where
  "isGet (CallGet name) = True"
| "isGet c = False"

fun isUpdate :: "call \<Rightarrow> bool" where
  "isUpdate (CallUpdate obj) = True"
| "isUpdate c = False"

fun isDelete :: "call \<Rightarrow> bool" where
  "isDelete (CallDelete name) = True"
| "isDelete c = False"

text \<open>
  \<open>pendingAttempts client interval k\<close> runs \<open>k\<close> attempts of the ready closure, each
  after a wait of one interval, as long as every one of them reports "not yet" without an
  error (it found neither condition and fetched the object anew). It yields the captured
  object and the state after them, and \<open>None\<close> when some attempt reports otherwise.
\<close>

fun pendingAttempts ::
  "'s CustomResourceDefinitionInterface \<Rightarrow> Duration \<Rightarrow> nat \<Rightarrow>
   CustomResourceDefinition \<times> 's world \<Rightarrow> (CustomResourceDefinition \<times> 's world) option" where
  "pendingAttempts client interval 0 st = Some st"
| "pendingAttempts client interval (Suc k) (crd, w) =
     (case waitForV1CRD_conditionFn client (crd, w\<lparr>now := now w + interval\<rparr>) of
        (Return (False, None), st) \<Rightarrow> pendingAttempts client interval k st
      | other \<Rightarrow> None)"

text \<open>
  The object that the apply closure writes: the fetched object after the two assignments
  \<^verbatim>\<open>clusterCRD.ObjectMeta.Labels = crd.ObjectMeta.Labels\<close> and
  \<^verbatim>\<open>clusterCRD.Spec = crd.Spec\<close>.
\<close>

abbreviation overwritten ::
  "CustomResourceDefinition \<Rightarrow> CustomResourceDefinition \<Rightarrow> CustomResourceDefinition" where
  "overwritten crd fetched \<equiv>
     fetched\<lparr> ObjectMeta := (ObjectMeta fetched)\<lparr>Labels := Labels (ObjectMeta crd)\<rparr>,
              Spec := Spec crd \<rparr>"

section \<open>A control plane that stores objects\<close>

text \<open>\<open>emptyCRD\<close> is the zero value \<^verbatim>\<open>CustomResourceDefinition{}\<close>.\<close>

definition emptyCRD :: CustomResourceDefinition where
  "emptyCRD =
     \<lparr> ObjectMeta = \<lparr> Name = [], Labels = Map.empty \<rparr>,
       Spec = \<lparr> Group = [],
                Names = \<lparr> Kind = [], Plural = [], ShortNames = [], Singular = [] \<rparr>,
                Scope = [], Versions = [] \<rparr>,
       StatusV1 = \<lparr> Conditions = [] \<rparr> \<rparr>"

text \<open>
  Modelled from the spec: the control-plane collaborator of section 6, which exposes
  Get, Create, Update and Delete for the definition objects and whose implementation is
  not in the embedded file. Objects are kept by qualified name (section 3: identity is the
  qualified name); a lookup of a missing name reports "not found", a creation of a present
  name reports "already exists", and no other process writes in between.
\<close>

definition storeClient ::
  "(string \<rightharpoonup> CustomResourceDefinition) CustomResourceDefinitionInterface" where
  "storeClient =
     \<lparr> Get = (\<lambda>name m.
          case m name of
            None \<Rightarrow> ((emptyCRD, Some (StatusError StatusReasonNotFound ''not found'')), m)
          | Some obj \<Rightarrow> ((obj, None), m)),
       Create = (\<lambda>obj m.
          case m (Name (ObjectMeta obj)) of
            None \<Rightarrow> ((obj, None), m(Name (ObjectMeta obj) \<mapsto> obj))
          | Some old \<Rightarrow>
              ((emptyCRD, Some (StatusError StatusReasonAlreadyExists ''already exists'')), m)),
       Update = (\<lambda>obj m.
          case m (Name (ObjectMeta obj)) of
            None \<Rightarrow> ((emptyCRD, Some (StatusError StatusReasonNotFound ''not found'')), m)
          | Some old \<Rightarrow> ((obj, None), m(Name (ObjectMeta obj) \<mapsto> obj))),
       Delete = (\<lambda>name m.
          case m name of
            None \<Rightarrow> (Some (StatusError StatusReasonNotFound ''not found''), m)
          | Some old \<Rightarrow> (None, m(name := None))) \<rparr>"

section \<open>Example inputs\<close>

text \<open>
  Concrete values at which the theorems below are instantiated. \<open>exVersion\<close> stands in
  for the version parser and knows three labels; \<open>exK\<close> fixes the baseline at
  \<open>1.22\<close>. \<open>exTemplate\<close> is a pregenerated definition with the given schema,
  \<open>exCluster\<close> an object as the cluster holds it, written by baseline \<open>label\<close>.
\<close>

definition exVersion :: "string \<Rightarrow> error + nat" where
  "exVersion v =
     (if v = ''1.21'' then Inr 121
      else if v = ''1.22'' then Inr 122
      else if v = ''1.23'' then Inr 123
      else Inl (errorString ''No Major.Minor.Patch elements found''))"

definition exK :: "nat k8sconst" where
  "exK = \<lparr> CustomResourceDefinitionSchemaVersionKey = ''io.cilium.k8s.crd.schema.version'',
           CustomResourceDefinitionSchemaVersion = ''1.22'',
           CustomResourceDefinitionGroup = ''cilium.io'',
           Version = exVersion,
           LT = (<),
           comparableCRDSchemaVersion = 122 \<rparr>"

definition exName :: string where
  "exName = ''ciliumnetworkpolicies.cilium.io''"

definition exTemplate :: "string option \<Rightarrow> CustomResourceDefinition" where
  "exTemplate schema =
     \<lparr> ObjectMeta = \<lparr> Name = exName, Labels = Map.empty \<rparr>,
       Spec = \<lparr> Group = ''cilium.io'',
                Names = \<lparr> Kind = ''CiliumNetworkPolicy'', Plural = ''ciliumnetworkpolicies'',
                          ShortNames = [''cnp'', ''ciliumnp''],
                          Singular = ''ciliumnetworkpolicy'' \<rparr>,
                Scope = ''Namespaced'',
                Versions = [\<lparr> VersionName = ''v2'', Schema = schema \<rparr>] \<rparr>,
       StatusV1 = \<lparr> Conditions = [] \<rparr> \<rparr>"

definition exBaseline :: CustomResourceDefinition where
  "exBaseline = constructV1CRD exK exName (exTemplate (Some ''openAPIV3Schema 1.22''))"

definition exBaselineNoSchema :: CustomResourceDefinition where
  "exBaselineNoSchema = constructV1CRD exK exName (exTemplate None)"

definition exCluster ::
  "string \<Rightarrow> CustomResourceDefinitionCondition list \<Rightarrow> CustomResourceDefinition" where
  "exCluster label conds =
     \<lparr> ObjectMeta = \<lparr> Name = exName,
                      Labels = [''io.cilium.k8s.crd.schema.version'' \<mapsto> label] \<rparr>,
       Spec = \<lparr> Group = ''cilium.io'',
                Names = \<lparr> Kind = ''CiliumNetworkPolicy'', Plural = ''ciliumnetworkpolicies'',
                          ShortNames = [''cnp''],
                          Singular = ''ciliumnetworkpolicy'' \<rparr>,
                Scope = ''Namespaced'',
                Versions = [\<lparr> VersionName = ''v2'', Schema = Some ''openAPIV3Schema 1.21'' \<rparr>] \<rparr>,
       StatusV1 = \<lparr> Conditions = conds \<rparr> \<rparr>"

text \<open>The conditions of an object whose names collide with another definition's.\<close>

definition exNameConflict :: "CustomResourceDefinitionCondition list" where
  "exNameConflict =
     [\<lparr> Type = ''NamesAccepted'', Status = ''False'', Reason = ''ListKindConflict'' \<rparr>,
      \<lparr> Type = ''Established'', Status = ''False'', Reason = ''NotAccepted'' \<rparr>]"

definition exWorld :: "'s \<Rightarrow> 's world" where
  "exWorld s = \<lparr> apiserver = s, calls = [], now = 0 \<rparr>"

text \<open>
  Control planes that misbehave in one operation: every write conflicts; every deletion
  fails; every creation finds the object already there; every lookup finds an object that
  is neither established nor in conflict.
\<close>

definition exConflictClient ::
  "(string \<rightharpoonup> CustomResourceDefinition) CustomResourceDefinitionInterface" where
  "exConflictClient = storeClient
     \<lparr> Update := (\<lambda>obj m.
          ((emptyCRD, Some (StatusError StatusReasonConflict ''the object has been modified'')),
           m)) \<rparr>"

definition exNoDeleteClient ::
  "(string \<rightharpoonup> CustomResourceDefinition) CustomResourceDefinitionInterface" where
  "exNoDeleteClient = storeClient
     \<lparr> Delete := (\<lambda>name m. (Some (StatusError StatusReasonUnknown ''etcd unavailable''), m)) \<rparr>"

definition exRaceClient ::
  "(string \<rightharpoonup> CustomResourceDefinition) CustomResourceDefinitionInterface" where
  "exRaceClient = storeClient
     \<lparr> Create := (\<lambda>obj m.
          ((emptyCRD, Some (StatusError StatusReasonAlreadyExists ''already exists'')), m)) \<rparr>"

definition exPendingClient ::
  "(string \<rightharpoonup> CustomResourceDefinition) CustomResourceDefinitionInterface" where
  "exPendingClient = storeClient
     \<lparr> Get := (\<lambda>name m. ((exCluster ''1.22'' [], None), m)) \<rparr>"

text \<open>
  A v1beta1 client that finds no object and whose creations always lose the race, and
  conversions that copy field by field.
\<close>

definition emptyCRDV1beta1 :: CustomResourceDefinitionV1beta1 where
  "emptyCRDV1beta1 =
     \<lparr> ObjectMetaV1beta1 = \<lparr> Name = [], Labels = Map.empty \<rparr>,
       SpecV1beta1 = \<lparr> GroupV1beta1 = [],
         NamesV1beta1 = \<lparr> Kind = [], Plural = [], ShortNames = [], Singular = [] \<rparr>,
         ScopeV1beta1 = [], Validation = None \<rparr>,
       StatusV1beta1 = \<lparr> Conditions = [] \<rparr> \<rparr>"

definition exV1beta1Client :: "'s CustomResourceDefinitionInterfaceV1beta1" where
  "exV1beta1Client =
     \<lparr> GetV1beta1 = (\<lambda>name s.
          ((emptyCRDV1beta1, Some (StatusError StatusReasonNotFound ''not found'')), s)),
       CreateV1beta1 = (\<lambda>obj s.
          ((emptyCRDV1beta1, Some (StatusError StatusReasonAlreadyExists ''already exists'')), s)),
       UpdateV1beta1 = (\<lambda>obj s.
          ((emptyCRDV1beta1, Some (StatusError StatusReasonNotFound ''not found'')), s)),
       DeleteV1beta1 = (\<lambda>name s. (Some (StatusError StatusReasonNotFound ''not found''), s)) \<rparr>"

definition exConversions :: "CustomResourceDefinition conversions" where
  "exConversions =
     \<lparr> Convert_v1_To_apiextensions = (\<lambda>crd. Inr crd),
       Convert_apiextensions_To_v1beta1 = (\<lambda>i. Inr
         \<lparr> ObjectMetaV1beta1 = ObjectMeta i,
           SpecV1beta1 = \<lparr> GroupV1beta1 = Group (Spec i), NamesV1beta1 = Names (Spec i),
             ScopeV1beta1 = Scope (Spec i),
             Validation = (case Versions (Spec i) of [] \<Rightarrow> None | v # vs \<Rightarrow> Schema v) \<rparr>,
           StatusV1beta1 = StatusV1 i \<rparr>) \<rparr>"

definition exClientset ::
  "(string \<rightharpoonup> CustomResourceDefinition) CustomResourceDefinitionInterface \<Rightarrow>
   (string \<rightharpoonup> CustomResourceDefinition) clientset" where
  "exClientset client = \<lparr> ApiextensionsV1 = client, ApiextensionsV1beta1 = exV1beta1Client \<rparr>"

section \<open>Lemmas about the poller and the two closures\<close>

lemmas ex_defs = emptyCRD_def storeClient_def exVersion_def exK_def exName_def exTemplate_def
  exBaseline_def exBaselineNoSchema_def exCluster_def exNameConflict_def exWorld_def
  exConflictClient_def exNoDeleteClient_def exRaceClient_def exPendingClient_def
  emptyCRDV1beta1_def exV1beta1Client_def exConversions_def exClientset_def constructV1CRD_def

lemma attempts_default: "nat (60 * Second div (500 * Millisecond)) = Suc 119"
  by (simp add: Second_def Millisecond_def)

lemma interval_pos: "\<not> 500 * Millisecond \<le> 0"
  by (simp add: Millisecond_def)

lemma budget_default: "int (Suc 119) * (500 * Millisecond) = 60 * Second"
  by (simp add: Second_def Millisecond_def)

text \<open>With the default cadence the poller makes at most 120 attempts.\<close>

lemma Poll_default:
  "Poll p (500 * Millisecond) (60 * Second) f (c, w) =
   pollLoop (Suc 119) (500 * Millisecond) f
     (c, w\<lparr>calls := calls w @ [CallPoll (500 * Millisecond) (60 * Second)]\<rparr>)"
  by (cases p) (simp only: Poll.simps waitPoll_def attempts_default interval_pos if_False)

lemma pollLoop_numeral:
  "pollLoop (numeral k) interval f (c, w) =
     (case f (c, w\<lparr>now := now w + interval\<rparr>) of
        (Panic m, st) \<Rightarrow> (Panic m, st)
      | (Return (ok, Some err), st) \<Rightarrow> (Return (Some err), st)
      | (Return (ok, None), st) \<Rightarrow>
          if ok then (Return None, st) else pollLoop (pred_numeral k) interval f st)"
  by (simp add: numeral_eq_Suc)

lemmas run_defs = pollLoop_numeral needsUpdateV1_def updateV1CRD_def updateV1CRD_conditionFn_def
  waitForV1CRD_def waitForV1CRD_conditionFn_def createUpdateCRD_def createUpdateCRD_rest_def
  doGet_def doCreate_def doUpdate_def doDelete_def Poll_default pollLoop.simps
  Established_def NamesAccepted_def ConditionTrue_def ConditionFalse_def New_def Errorf_w_def
  Let_def

text \<open>One attempt of the apply closure on a stale object: the fetch, then the write.\<close>

lemma updateV1CRD_conditionFn_write:
  assumes "Get client (Name (ObjectMeta crd)) (apiserver w) = ((fetched, None), s1)"
    and "needsUpdateV1 K fetched = Return True"
    and "Update client (overwritten crd fetched) s1 = ((r, e), s2)"
  shows "updateV1CRD_conditionFn K crd client (c, w) =
     (Return (e = None, e),
      (overwritten crd fetched,
       w\<lparr>apiserver := s2,
         calls := calls w @ [CallGet (Name (ObjectMeta crd)),
                             CallUpdate (overwritten crd fetched)]\<rparr>))"
  using assms
  by (cases e) (simp_all add: updateV1CRD_conditionFn_def doGet_def doUpdate_def Let_def)

lemma pollLoop_update_write:
  assumes "Get client (Name (ObjectMeta crd)) (apiserver w) = ((fetched, None), s1)"
    and "needsUpdateV1 K fetched = Return True"
    and "Update client (overwritten crd fetched) s1 = ((r, e), s2)"
  shows "pollLoop (Suc n) interval (updateV1CRD_conditionFn K crd client) (c, w) =
     (Return e,
      (overwritten crd fetched,
       w\<lparr>apiserver := s2,
         calls := calls w @ [CallGet (Name (ObjectMeta crd)),
                             CallUpdate (overwritten crd fetched)],
         now := now w + interval\<rparr>))"
proof -
  have g: "Get client (Name (ObjectMeta crd)) (apiserver (w\<lparr>now := now w + interval\<rparr>))
             = ((fetched, None), s1)"
    using assms(1) by simp
  show ?thesis
    using updateV1CRD_conditionFn_write [OF g assms(2) assms(3), of c]
    by (cases e) simp_all
qed

lemma Poll_update_write:
  assumes "Get client (Name (ObjectMeta crd)) (apiserver w) = ((fetched, None), s1)"
    and "needsUpdateV1 K fetched = Return True"
    and "Update client (overwritten crd fetched) s1 = ((r, e), s2)"
  shows "Poll p (500 * Millisecond) (60 * Second) (updateV1CRD_conditionFn K crd client) (c, w) =
     (Return e,
      (overwritten crd fetched,
       w\<lparr>apiserver := s2,
         calls := calls w @ [CallPoll (500 * Millisecond) (60 * Second),
                             CallGet (Name (ObjectMeta crd)),
                             CallUpdate (overwritten crd fetched)],
         now := now w + 500 * Millisecond\<rparr>))"
proof -
  let ?w = "w\<lparr>calls := calls w @ [CallPoll (500 * Millisecond) (60 * Second)]\<rparr>"
  have g: "Get client (Name (ObjectMeta crd)) (apiserver ?w) = ((fetched, None), s1)"
    using assms(1) by simp
  have "pollLoop (Suc 119) (500 * Millisecond) (updateV1CRD_conditionFn K crd client) (c, ?w) =
     (Return e,
      (overwritten crd fetched,
       ?w\<lparr>apiserver := s2,
          calls := calls ?w @ [CallGet (Name (ObjectMeta crd)),
                               CallUpdate (overwritten crd fetched)],
          now := now ?w + 500 * Millisecond\<rparr>))"
    by (rule pollLoop_update_write [OF g assms(2) assms(3)])
  then show ?thesis
    by (simp only: Poll_default) simp
qed

lemma updateV1CRD_write:
  assumes "Versions (Spec crd) = v0 # rest" and "Schema v0 \<noteq> None"
    and "needsUpdateV1 K clusterCRD = Return True"
    and "Get client (Name (ObjectMeta crd)) (apiserver w) = ((fetched, None), s1)"
    and "needsUpdateV1 K fetched = Return True"
    and "Update client (overwritten crd fetched) s1 = ((r, e), s2)"
  shows "updateV1CRD K crd clusterCRD client p w =
     (Return e,
      w\<lparr>apiserver := s2,
        calls := calls w @ [CallPoll (500 * Millisecond) (60 * Second),
                            CallGet (Name (ObjectMeta crd)),
                            CallUpdate (overwritten crd fetched)],
        now := now w + 500 * Millisecond\<rparr>)"
  using assms(1,2,3) Poll_update_write [OF assms(4) assms(5) assms(6), of p clusterCRD]
  by (cases e) (simp_all add: updateV1CRD_def)

text \<open>
  The apply closure never reports "not yet" without an error, issues no deletion and takes
  no time of its own, so the apply loop ends with its first attempt.
\<close>

lemma update_conditionFn_shape:
  "\<exists>r c1 w1 new. updateV1CRD_conditionFn K crd client (c, w) = (r, (c1, w1))
     \<and> r \<noteq> Return (False, None)
     \<and> calls w1 = calls w @ CallGet (Name (ObjectMeta crd)) # new
     \<and> filter isDelete new = []
     \<and> now w1 = now w"
  by (auto simp: updateV1CRD_conditionFn_def doGet_def doUpdate_def Let_def
           split: prod.splits option.splits outcome.splits)

lemma pollLoop_update_shape:
  "\<exists>r c1 w1 new.
     pollLoop (Suc n) interval (updateV1CRD_conditionFn K crd client) (c, w) = (r, (c1, w1))
     \<and> calls w1 = calls w @ CallGet (Name (ObjectMeta crd)) # new
     \<and> filter isDelete new = []
     \<and> now w1 = now w + interval"
proof -
  obtain r c1 w1 new where
    h: "updateV1CRD_conditionFn K crd client (c, w\<lparr>now := now w + interval\<rparr>) = (r, (c1, w1))"
       "r \<noteq> Return (False, None)"
       "calls w1 = calls (w\<lparr>now := now w + interval\<rparr>) @ CallGet (Name (ObjectMeta crd)) # new"
       "filter isDelete new = []"
       "now w1 = now (w\<lparr>now := now w + interval\<rparr>)"
    using update_conditionFn_shape [of K crd client c "w\<lparr>now := now w + interval\<rparr>"] by blast
  then show ?thesis
    by (auto split: outcome.splits option.splits)
qed

lemma updateV1CRD_entered:
  assumes "Versions (Spec crd) = v0 # rest" and "Schema v0 \<noteq> None"
    and "needsUpdateV1 K clusterCRD = Return True"
  shows "\<exists>r w1 new. updateV1CRD K crd clusterCRD client p w = (r, w1)
     \<and> calls w1 = calls w @ CallPoll (500 * Millisecond) (60 * Second)
                         # CallGet (Name (ObjectMeta crd)) # new
     \<and> filter isDelete new = []
     \<and> now w1 = now w + 500 * Millisecond"
proof -
  let ?w = "w\<lparr>calls := calls w @ [CallPoll (500 * Millisecond) (60 * Second)]\<rparr>"
  obtain r c1 w1 new where
    h: "pollLoop (Suc 119) (500 * Millisecond) (updateV1CRD_conditionFn K crd client)
          (clusterCRD, ?w) = (r, (c1, w1))"
       "calls w1 = calls ?w @ CallGet (Name (ObjectMeta crd)) # new"
       "filter isDelete new = []"
       "now w1 = now ?w + 500 * Millisecond"
    using pollLoop_update_shape [of 119 "500 * Millisecond" K crd client clusterCRD ?w] by blast
  have "Poll p (500 * Millisecond) (60 * Second) (updateV1CRD_conditionFn K crd client)
          (clusterCRD, w) = (r, (c1, w1))"
    using h(1) by (simp only: Poll_default)
  then show ?thesis
    using assms h(2,3,4)
    by (auto simp: updateV1CRD_def split: outcome.splits option.splits)
qed

lemma updateV1CRD_no_delete:
  "filter isDelete (calls (snd (updateV1CRD K crd clusterCRD client p w)))
     = filter isDelete (calls w)"
proof (cases "\<exists>v0 rest. Versions (Spec crd) = v0 # rest \<and> Schema v0 \<noteq> None
                \<and> needsUpdateV1 K clusterCRD = Return True")
  case True
  then obtain v0 rest where
    a: "Versions (Spec crd) = v0 # rest" "Schema v0 \<noteq> None"
       "needsUpdateV1 K clusterCRD = Return True"
    by blast
  obtain r w1 new where
    h: "updateV1CRD K crd clusterCRD client p w = (r, w1)"
       "calls w1 = calls w @ CallPoll (500 * Millisecond) (60 * Second)
                     # CallGet (Name (ObjectMeta crd)) # new"
       "filter isDelete new = []"
    using updateV1CRD_entered [OF a, of client p w] by blast
  then show ?thesis by simp
next
  case False
  then have "snd (updateV1CRD K crd clusterCRD client p w) = w"
    by (auto simp: updateV1CRD_def split: list.splits outcome.splits)
  then show ?thesis by simp
qed

text \<open>
  The scan of the conditions stops at the first condition that is a refused name, provided
  no condition before it ends the scan.
\<close>

lemma rangeConditions_conflict:
  assumes "list_all (\<lambda>x. \<not> (Type x = Established \<and> Status x = ConditionTrue)
                        \<and> \<not> (Type x = NamesAccepted \<and> Status x = ConditionFalse)) before"
    and "Type cond = NamesAccepted" and "Status cond = ConditionFalse"
  shows "rangeConditions (before @ cond # after) = Some (False, Some (New (Reason cond)))"
  using assms
  by (induction before) (auto simp: Established_def NamesAccepted_def)

lemma rangeConditions_resolved: "rangeConditions conds \<noteq> Some (False, None)"
  by (induction conds) auto

lemma ready_conditionFn_calls:
  "waitForV1CRD_conditionFn client (crd, w) = (Return (False, None), (crd1, w1)) \<Longrightarrow>
   calls w1 = calls w @ [CallGet (Name (ObjectMeta crd))] \<and> now w1 = now w"
  using rangeConditions_resolved [of "Conditions (StatusV1 crd)"]
  by (auto simp: waitForV1CRD_conditionFn_def doGet_def
           split: option.splits prod.splits)

text \<open>Attempts that find nothing only shorten the loop and add one fetch each.\<close>

lemma pollLoop_after_pending:
  "pendingAttempts client interval k st = Some st1 \<Longrightarrow>
   pollLoop (k + n) interval (waitForV1CRD_conditionFn client) st
     = pollLoop n interval (waitForV1CRD_conditionFn client) st1"
proof (induction k arbitrary: st)
  case 0
  then show ?case by simp
next
  case (Suc k)
  obtain crd w where st: "st = (crd, w)" by (cases st)
  obtain r st2 where
    c: "waitForV1CRD_conditionFn client (crd, w\<lparr>now := now w + interval\<rparr>) = (r, st2)"
    by (cases "waitForV1CRD_conditionFn client (crd, w\<lparr>now := now w + interval\<rparr>)")
  have r: "r = Return (False, None)" and p: "pendingAttempts client interval k st2 = Some st1"
    using Suc.prems st c
    by (auto split: outcome.splits prod.splits bool.splits option.splits)
  show ?case
    using Suc.IH [OF p] st c r by simp
qed

lemma pendingAttempts_calls:
  "pendingAttempts client interval k (crd, w) = Some (crd1, w1) \<Longrightarrow>
   \<exists>gets. calls w1 = calls w @ gets \<and> length gets = k \<and> list_all isGet gets
     \<and> now w1 = now w + int k * interval"
proof (induction k arbitrary: crd w)
  case 0
  then show ?case by simp
next
  case (Suc k)
  obtain r st2 where
    c: "waitForV1CRD_conditionFn client (crd, w\<lparr>now := now w + interval\<rparr>) = (r, st2)"
    by (cases "waitForV1CRD_conditionFn client (crd, w\<lparr>now := now w + interval\<rparr>)")
  obtain crd2 w2 where st2: "st2 = (crd2, w2)" by (cases st2)
  have r: "r = Return (False, None)"
    and p: "pendingAttempts client interval k (crd2, w2) = Some (crd1, w1)"
    using Suc.prems c st2
    by (auto split: outcome.splits prod.splits bool.splits option.splits)
  have s: "calls w2 = calls (w\<lparr>now := now w + interval\<rparr>) @ [CallGet (Name (ObjectMeta crd))]"
          "now w2 = now (w\<lparr>now := now w + interval\<rparr>)"
    using ready_conditionFn_calls [of client crd "w\<lparr>now := now w + interval\<rparr>" crd2 w2]
      c r st2
    by simp_all
  obtain gets where
    g: "calls w1 = calls w2 @ gets" "length gets = k" "list_all isGet gets"
       "now w1 = now w2 + int k * interval"
    using Suc.IH [OF p] by blast
  have "calls w1 = calls w @ (CallGet (Name (ObjectMeta crd)) # gets)"
    using g(1) s(1) by simp
  moreover have "length (CallGet (Name (ObjectMeta crd)) # gets) = Suc k"
    using g(2) by simp
  moreover have "list_all isGet (CallGet (Name (ObjectMeta crd)) # gets)"
    using g(3) by simp
  moreover have "now w1 = now w + int (Suc k) * interval"
    using g(4) s(2) by (simp add: algebra_simps)
  ultimately show ?case by blast
qed

lemma ready_conditionFn_pending:
  assumes "rangeConditions (Conditions (StatusV1 crd)) = None"
    and "Get client (Name (ObjectMeta crd)) (apiserver w) = ((obj, None), s)"
  shows "waitForV1CRD_conditionFn client (crd, w)
           = (Return (False, None),
              (obj, w\<lparr>apiserver := s, calls := calls w @ [CallGet (Name (ObjectMeta crd))]\<rparr>))"
  using assms by (simp add: waitForV1CRD_conditionFn_def doGet_def)

text \<open>
  An attempt that finds nothing has fetched its new object without error; so against a
  control plane that answers a lookup with the object asked for, the object the wait holds
  keeps its name.
\<close>

lemma ready_conditionFn_fetch:
  "waitForV1CRD_conditionFn client (crd, w) = (Return (False, None), (obj, v)) \<Longrightarrow>
   \<exists>s. Get client (Name (ObjectMeta crd)) (apiserver w) = ((obj, None), s)"
  using rangeConditions_resolved [of "Conditions (StatusV1 crd)"]
  by (auto simp: waitForV1CRD_conditionFn_def doGet_def split: option.splits prod.splits)

lemma pendingAttempts_name:
  assumes "\<forall>name s obj s1. Get client name s = ((obj, None), s1)
              \<longrightarrow> Name (ObjectMeta obj) = name"
  shows "pendingAttempts client interval k (crd, w) = Some (c, v) \<Longrightarrow>
         Name (ObjectMeta c) = Name (ObjectMeta crd)"
proof (induction k arbitrary: crd w)
  case 0
  then show ?case by simp
next
  case (Suc k)
  let ?w = "w\<lparr>now := now w + interval\<rparr>"
  obtain r st where a: "waitForV1CRD_conditionFn client (crd, ?w) = (r, st)"
    by (cases "waitForV1CRD_conditionFn client (crd, ?w)")
  obtain obj u where st: "st = (obj, u)" by (cases st)
  have r: "r = Return (False, None)"
    and p: "pendingAttempts client interval k (obj, u) = Some (c, v)"
    using Suc.prems a st
    by (auto split: outcome.splits prod.splits bool.splits option.splits)
  obtain s where "Get client (Name (ObjectMeta crd)) (apiserver ?w) = ((obj, None), s)"
    using ready_conditionFn_fetch [of client crd ?w obj u] a r st by blast
  then have "Name (ObjectMeta obj) = Name (ObjectMeta crd)"
    using assms by blast
  then show ?case
    using Suc.IH [OF p] by simp
qed

lemma ready_conditionFn_resolved:
  "rangeConditions (Conditions (StatusV1 crd)) = Some r \<Longrightarrow>
   waitForV1CRD_conditionFn client (crd, w) = (Return r, (crd, w))"
  by (simp add: waitForV1CRD_conditionFn_def)

text \<open>
  When every attempt the loop has finds nothing, the loop ends with the timeout error in
  the state those attempts leave.
\<close>

lemma pollLoop_timeout_after_pending:
  "pendingAttempts client interval n st = Some st1 \<Longrightarrow>
   pollLoop n interval (waitForV1CRD_conditionFn client) st = (Return (Some ErrWaitTimeout), st1)"
  using pollLoop_after_pending [of client interval n st st1 0] by simp

text \<open>
  Against a control plane whose objects never become ready and never report a conflict,
  and whose lookups never fail, every attempt finds nothing.
\<close>

lemma pendingAttempts_never_ready:
  assumes "\<forall>name s. \<exists>obj s1. Get client name s = ((obj, None), s1)
              \<and> rangeConditions (Conditions (StatusV1 obj)) = None"
  shows "rangeConditions (Conditions (StatusV1 crd)) = None \<Longrightarrow>
         \<exists>c1 w1. pendingAttempts client interval n (crd, w) = Some (c1, w1)"
proof (induction n arbitrary: crd w)
  case 0
  then show ?case by simp
next
  case (Suc n)
  let ?w = "w\<lparr>now := now w + interval\<rparr>"
  obtain obj s where
    g: "Get client (Name (ObjectMeta crd)) (apiserver ?w) = ((obj, None), s)"
    and o: "rangeConditions (Conditions (StatusV1 obj)) = None"
    using assms by blast
  let ?next = "?w\<lparr>apiserver := s, calls := calls ?w @ [CallGet (Name (ObjectMeta crd))]\<rparr>"
  have step: "waitForV1CRD_conditionFn client (crd, ?w) = (Return (False, None), (obj, ?next))"
    by (rule ready_conditionFn_pending [OF Suc.prems g])
  obtain c1 w1 where
    ih: "pendingAttempts client interval n (obj, ?next) = Some (c1, w1)"
    using Suc.IH [OF o, of ?next] by blast
  have "pendingAttempts client interval (Suc n) (crd, w) = Some (c1, w1)"
    using step ih by simp
  then show ?case by blast
qed

lemma needsUpdateV1_older:
  assumes "Versions (Spec clusterCRD) \<noteq> []"
    and "Labels (ObjectMeta clusterCRD) (CustomResourceDefinitionSchemaVersionKey K) = Some v"
    and "Version K v = Inr clusterVersion"
    and "LT K clusterVersion (comparableCRDSchemaVersion K)"
  shows "needsUpdateV1 K clusterCRD = Return True"
  using assms by (auto simp: needsUpdateV1_def split: list.splits)

section \<open>The staleness check\<close>

text \<open>
  Claim C10. \<^verbatim>\<open>needsUpdateV1\<close> reads position 0 of the versions list with no length guard.
  It panics with an index out of range exactly on the objects whose versions list is empty,
  and returns a boolean exactly on the objects whose versions list is not empty: it is total
  under that precondition and only under it, and under it the out-of-bounds branch is not
  reached.
\<close>

theorem needsUpdateV1_total_iff_versions:
  "(needsUpdateV1 K clusterCRD = Panic ''index out of range [0] with length 0'')
     = (Versions (Spec clusterCRD) = [])
   \<and> (\<exists>b. needsUpdateV1 K clusterCRD = Return b) = (Versions (Spec clusterCRD) \<noteq> [])"
  by (auto simp: needsUpdateV1_def split: list.splits option.splits sum.splits)

text \<open>
  Claim C4, as amended. For every cluster definition object whose versions list is not
  empty, \<^verbatim>\<open>needsUpdateV1\<close> returns true if and only if the first version's schema is nil, or
  the schema-version label is absent, or the label does not parse as a version, or the parsed
  version is strictly less than the baseline version; in all other cases it returns false.
\<close>

theorem needsUpdateV1_iff:
  assumes "Versions (Spec clusterCRD) = v0 # rest"
  shows "needsUpdateV1 K clusterCRD =
     Return (Schema v0 = None
       \<or> Labels (ObjectMeta clusterCRD) (CustomResourceDefinitionSchemaVersionKey K) = None
       \<or> (\<exists>v err.
             Labels (ObjectMeta clusterCRD) (CustomResourceDefinitionSchemaVersionKey K) = Some v
             \<and> Version K v = Inl err)
       \<or> (\<exists>v clusterVersion.
             Labels (ObjectMeta clusterCRD) (CustomResourceDefinitionSchemaVersionKey K) = Some v
             \<and> Version K v = Inr clusterVersion
             \<and> LT K clusterVersion (comparableCRDSchemaVersion K)))"
  using assms
  by (auto simp: needsUpdateV1_def split: list.splits option.splits sum.splits)

text \<open>
  The amended claim at an object written by baseline 1.21 while the baseline is 1.22: the
  check returns true, by the last disjunct.
\<close>

theorem needsUpdateV1_iff_witness:
  "Versions (Spec (exCluster ''1.21'' []))
     = [\<lparr> VersionName = ''v2'', Schema = Some ''openAPIV3Schema 1.21'' \<rparr>]
   \<and> needsUpdateV1 exK (exCluster ''1.21'' []) = Return True
   \<and> exVersion ''1.21'' = Inr 121
   \<and> needsUpdateV1 exK (exCluster ''1.22'' []) = Return False"
proof -
  have h: "Versions (Spec (exCluster l []))
             = \<lparr> VersionName = ''v2'', Schema = Some ''openAPIV3Schema 1.21'' \<rparr> # []" for l
    by (simp add: exCluster_def)
  have a: "needsUpdateV1 exK (exCluster ''1.21'' []) = Return True"
    using needsUpdateV1_iff [OF h, of exK "''1.21''"]
    by (simp add: ex_defs)
  have b: "needsUpdateV1 exK (exCluster ''1.22'' []) = Return False"
    using needsUpdateV1_iff [OF h, of exK "''1.22''"]
    by (simp add: ex_defs)
  show ?thesis using h a b by (simp add: exVersion_def)
qed

text \<open>
  The claim as stated, for every object, fails at the zero object: its versions list is
  empty, so the check panics and returns neither true nor false, although the label is
  absent and the claim requires true.
\<close>

theorem needsUpdateV1_every_object_counterexample:
  "Labels (ObjectMeta emptyCRD) (CustomResourceDefinitionSchemaVersionKey exK) = None
   \<and> needsUpdateV1 exK emptyCRD \<noteq> Return True
   \<and> needsUpdateV1 exK emptyCRD = Panic ''index out of range [0] with length 0''"
  by (simp add: needsUpdateV1_def emptyCRD_def)

section \<open>The update phase\<close>

text \<open>
  Claim C9. If the first version of the baseline object has a nil schema, \<^verbatim>\<open>updateV1CRD\<close>
  returns no error and leaves the whole state as it was: no call is issued, so no Update, and
  the cluster object keeps its labels and spec, whatever the cluster object is (stale or
  not).
\<close>

theorem updateV1CRD_no_schema:
  assumes "Versions (Spec crd) = v0 # rest" and "Schema v0 = None"
  shows "updateV1CRD K crd clusterCRD client p w = (Return None, w)"
  using assms by (simp add: updateV1CRD_def)

text \<open>
  The claim at a baseline without schema and a cluster object that the check finds stale.
\<close>

theorem updateV1CRD_no_schema_witness:
  "Versions (Spec exBaselineNoSchema) = [\<lparr> VersionName = ''v2'', Schema = None \<rparr>]
   \<and> needsUpdateV1 exK (exCluster ''1.21'' []) = Return True
   \<and> updateV1CRD exK exBaselineNoSchema (exCluster ''1.21'' []) storeClient defaultPoll
       (exWorld [exName \<mapsto> exCluster ''1.21'' []])
     = (Return None, exWorld [exName \<mapsto> exCluster ''1.21'' []])"
proof -
  have h: "Versions (Spec exBaselineNoSchema) = \<lparr> VersionName = ''v2'', Schema = None \<rparr> # []"
    by (simp add: ex_defs)
  have s: "Schema \<lparr> VersionName = ''v2'', Schema = None \<rparr> = None"
    by simp
  have n: "needsUpdateV1 exK (exCluster ''1.21'' []) = Return True"
    by (simp add: needsUpdateV1_def ex_defs)
  show ?thesis
    using h n updateV1CRD_no_schema [OF h s, of exK "exCluster ''1.21'' []" storeClient
      defaultPoll "exWorld [exName \<mapsto> exCluster ''1.21'' []]"]
    by simp
qed

text \<open>
  The apply closure sits in a poll of 60 s, fetches the object anew and tests its staleness
  anew at each attempt, which is what a retry needs. But it hands every error of the write to
  the poller as its own error, an optimistic-concurrency conflict included, and the poller
  ends on an error. For every control plane, every baseline and every state: when the fetch
  succeeds, the object is stale and the write fails, the predicate reports the write's error
  and the loop ends with it at that attempt.
\<close>

lemma update_write_error_is_terminal:
  assumes "Get client (Name (ObjectMeta crd)) (apiserver w) = ((fetched, None), s1)"
    and "needsUpdateV1 K fetched = Return True"
    and "Update client (overwritten crd fetched) s1 = ((r, Some err), s2)"
  shows "updateV1CRD_conditionFn K crd client (c, w) =
           (Return (False, Some err),
            (overwritten crd fetched,
             w\<lparr>apiserver := s2,
               calls := calls w @ [CallGet (Name (ObjectMeta crd)),
                                   CallUpdate (overwritten crd fetched)]\<rparr>))
       \<and> Poll p (500 * Millisecond) (60 * Second) (updateV1CRD_conditionFn K crd client) (c, w) =
           (Return (Some err),
            (overwritten crd fetched,
             w\<lparr>apiserver := s2,
               calls := calls w @ [CallPoll (500 * Millisecond) (60 * Second),
                                   CallGet (Name (ObjectMeta crd)),
                                   CallUpdate (overwritten crd fetched)],
               now := now w + 500 * Millisecond\<rparr>))"
  using updateV1CRD_conditionFn_write [OF assms(1) assms(2) assms(3), of c]
    Poll_update_write [OF assms(1) assms(2) assms(3), of p c]
  by simp

text \<open>
  Whatever the control plane answers, the apply loop makes one attempt only: one fetch and
  at most one write, 500 ms after its start. The remaining 119 attempts of its budget are
  never used.
\<close>

lemma apply_loop_single_attempt:
  "\<exists>r c1 w1 new.
     Poll p (500 * Millisecond) (60 * Second) (updateV1CRD_conditionFn K crd client) (c, w)
       = (r, (c1, w1))
     \<and> calls w1 = calls w @ CallPoll (500 * Millisecond) (60 * Second)
                     # CallGet (Name (ObjectMeta crd)) # new
     \<and> (new = [] \<or> (\<exists>obj. new = [CallUpdate obj]))
     \<and> now w1 = now w + 500 * Millisecond"
proof -
  let ?f = "updateV1CRD_conditionFn K crd client"
  let ?v = "w\<lparr>calls := calls w @ [CallPoll (500 * Millisecond) (60 * Second)]\<rparr>"
  let ?start = "?v\<lparr>now := now ?v + 500 * Millisecond\<rparr>"
  have "\<exists>r c1 w1 new. ?f (c, ?start) = (r, (c1, w1))
     \<and> r \<noteq> Return (False, None)
     \<and> calls w1 = calls ?start @ CallGet (Name (ObjectMeta crd)) # new
     \<and> (new = [] \<or> (\<exists>obj. new = [CallUpdate obj]))
     \<and> now w1 = now ?start"
    by (auto simp: updateV1CRD_conditionFn_def doGet_def doUpdate_def Let_def
             split: prod.splits option.splits outcome.splits)
  then obtain r c1 w1 new where
    h: "?f (c, ?start) = (r, (c1, w1))"
       "r \<noteq> Return (False, None)"
       "calls w1 = calls ?start @ CallGet (Name (ObjectMeta crd)) # new"
       "new = [] \<or> (\<exists>obj. new = [CallUpdate obj])"
       "now w1 = now ?start"
    by blast
  have one: "\<exists>r'. pollLoop (Suc n) i f (c, v) = (r', (c1, w1))"
    if "f (c, v\<lparr>now := now v + i\<rparr>) = (r, (c1, w1))" and "r \<noteq> Return (False, None)"
    for n i v and f :: "(CustomResourceDefinition, 'a) conditionFn"
    using that by (auto split: outcome.splits option.splits)
  obtain r' where
    l: "pollLoop (Suc 119) (500 * Millisecond) ?f (c, ?v) = (r', (c1, w1))"
    using one [where f = ?f and v = ?v and i = "500 * Millisecond" and n = 119, OF h(1) h(2)]
    by blast
  have "Poll p (500 * Millisecond) (60 * Second) ?f (c, w) = (r', (c1, w1))"
    using l by (simp only: Poll_default)
  moreover have "calls w1 = calls w @ CallPoll (500 * Millisecond) (60 * Second)
                     # CallGet (Name (ObjectMeta crd)) # new"
    using h(3) by simp
  moreover have "now w1 = now w + 500 * Millisecond"
    using h(5) by simp
  ultimately show ?thesis
    using h(4) by blast
qed

text \<open>
  Claim C3 (not met by the code). The claim: in the bounded apply loop, when the write of
  labels and spec fails with an optimistic-concurrency conflict, the predicate reports "not
  yet succeeded" without an error, so the loop retries with a fresh read. The code at a
  control plane that holds the definition written by baseline 1.21, with the baseline at
  1.22, and that answers the write with a conflict: the predicate reports the conflict as
  its error; \<^verbatim>\<open>updateV1CRD\<close> returns the conflict after one poll, one fetch and one write,
  500 ms after its start; and \<^verbatim>\<open>createUpdateCRD\<close> fails with it.
\<close>

theorem update_conflict_ends_apply_loop:
  "fst (updateV1CRD_conditionFn exK exBaseline exConflictClient
          (exCluster ''1.21'' [], exWorld [exName \<mapsto> exCluster ''1.21'' []]))
     = Return (False, Some (StatusError StatusReasonConflict ''the object has been modified''))
   \<and> fst (updateV1CRD exK exBaseline (exCluster ''1.21'' []) exConflictClient defaultPoll
            (exWorld [exName \<mapsto> exCluster ''1.21'' []]))
     = Return (Some (StatusError StatusReasonConflict ''the object has been modified''))
   \<and> calls (snd (updateV1CRD exK exBaseline (exCluster ''1.21'' [])
            exConflictClient defaultPoll (exWorld [exName \<mapsto> exCluster ''1.21'' []])))
     = [CallPoll (500 * Millisecond) (60 * Second), CallGet exName,
        CallUpdate (overwritten exBaseline (exCluster ''1.21'' []))]
   \<and> now (snd (updateV1CRD exK exBaseline (exCluster ''1.21'' [])
            exConflictClient defaultPoll (exWorld [exName \<mapsto> exCluster ''1.21'' []])))
     = 500 * Millisecond
   \<and> fst (createUpdateCRD exK exConversions True (exClientset exConflictClient) exName
            exBaseline defaultPoll (exWorld [exName \<mapsto> exCluster ''1.21'' []]))
     = Return (Some (StatusError StatusReasonConflict ''the object has been modified''))"
  by (simp add: ex_defs run_defs)

text \<open>
  Claim C7, as amended. Given a baseline object that carries a schema payload and a cluster
  definition object, with at least one version, whose schema-version label is strictly less
  than the baseline version, one run of the update-if-stale phase against a control plane
  that stores what is written succeeds and leaves the object's labels equal to the baseline
  object's labels (so the version label equals the baseline version) and its spec equal to
  the baseline spec, through exactly one Update call.
\<close>

theorem updateV1CRD_converges:
  assumes "Versions (Spec template) = v0 # rest" and "Schema v0 \<noteq> None"
    and "apiserver w name = Some clusterCRD"
    and "Name (ObjectMeta clusterCRD) = name"
    and "Versions (Spec clusterCRD) \<noteq> []"
    and "Labels (ObjectMeta clusterCRD) (CustomResourceDefinitionSchemaVersionKey K) = Some v"
    and "Version K v = Inr clusterVersion"
    and "LT K clusterVersion (comparableCRDSchemaVersion K)"
  shows "\<exists>w1 obj.
           updateV1CRD K (constructV1CRD K name template) clusterCRD storeClient p w
             = (Return None, w1)
         \<and> apiserver w1 name = Some obj
         \<and> Labels (ObjectMeta obj) = Labels (ObjectMeta (constructV1CRD K name template))
         \<and> Labels (ObjectMeta obj) (CustomResourceDefinitionSchemaVersionKey K)
             = Some (CustomResourceDefinitionSchemaVersion K)
         \<and> Spec obj = Spec (constructV1CRD K name template)
         \<and> Versions (Spec obj) = Versions (Spec template)
         \<and> filter isUpdate (calls w1) = filter isUpdate (calls w) @ [CallUpdate obj]"
proof -
  let ?crd = "constructV1CRD K name template"
  let ?obj = "overwritten ?crd clusterCRD"
  let ?w1 = "w\<lparr>apiserver := (apiserver w)(name \<mapsto> ?obj),
        calls := calls w @ [CallPoll (500 * Millisecond) (60 * Second),
                            CallGet (Name (ObjectMeta ?crd)), CallUpdate ?obj],
        now := now w + 500 * Millisecond\<rparr>"
  have n: "Name (ObjectMeta ?crd) = name"
    by (simp add: constructV1CRD_def)
  have v: "Versions (Spec ?crd) = v0 # rest"
    using assms(1) by (simp add: constructV1CRD_def)
  have stale: "needsUpdateV1 K clusterCRD = Return True"
    by (rule needsUpdateV1_older [OF assms(5) assms(6) assms(7) assms(8)])
  have g: "Get storeClient (Name (ObjectMeta ?crd)) (apiserver w)
             = ((clusterCRD, None), apiserver w)"
    using assms(3) n by (simp add: storeClient_def)
  have u: "Update storeClient ?obj (apiserver w) = ((?obj, None), (apiserver w)(name \<mapsto> ?obj))"
    using assms(3) assms(4) by (simp add: storeClient_def)
  have run: "updateV1CRD K ?crd clusterCRD storeClient p w = (Return None, ?w1)"
    by (rule updateV1CRD_write [OF v assms(2) stale g stale u])
  show ?thesis
    unfolding run
    by (intro exI [of _ ?w1] exI [of _ ?obj]) (simp add: constructV1CRD_def)
qed

text \<open>
  The amended claim at an object written by baseline 1.21, stored under its name, with the
  baseline 1.22: after the run the stored object carries the label 1.22 and the baseline's
  schema.
\<close>

theorem updateV1CRD_converges_witness:
  "exVersion ''1.21'' = Inr 121 \<and> LT exK 121 (comparableCRDSchemaVersion exK)
   \<and> (\<exists>w1 obj.
        updateV1CRD exK exBaseline (exCluster ''1.21'' []) storeClient defaultPoll
          (exWorld [exName \<mapsto> exCluster ''1.21'' []]) = (Return None, w1)
        \<and> apiserver w1 exName = Some obj
        \<and> Labels (ObjectMeta obj) ''io.cilium.k8s.crd.schema.version'' = Some ''1.22''
        \<and> Versions (Spec obj) = [\<lparr> VersionName = ''v2'', Schema = Some ''openAPIV3Schema 1.22'' \<rparr>])"
proof -
  let ?t = "exTemplate (Some ''openAPIV3Schema 1.22'')"
  let ?v = "\<lparr> VersionName = ''v2'', Schema = Some ''openAPIV3Schema 1.22'' \<rparr>"
  let ?c = "exCluster ''1.21'' []"
  have a1: "Versions (Spec ?t) = ?v # []" by (simp add: exTemplate_def)
  have a2: "Schema ?v \<noteq> None" by simp
  have a3: "apiserver (exWorld [exName \<mapsto> ?c]) exName = Some ?c" by (simp add: exWorld_def)
  have a4: "Name (ObjectMeta ?c) = exName" by (simp add: exCluster_def)
  have a5: "Versions (Spec ?c) \<noteq> []" by (simp add: exCluster_def)
  have a6: "Labels (ObjectMeta ?c) (CustomResourceDefinitionSchemaVersionKey exK) = Some ''1.21''"
    by (simp add: exCluster_def exK_def)
  have a7: "Version exK ''1.21'' = Inr 121" by (simp add: exK_def exVersion_def)
  have a8: "LT exK 121 (comparableCRDSchemaVersion exK)" by (simp add: exK_def)
  obtain w1 obj where
    h: "updateV1CRD exK (constructV1CRD exK exName ?t) ?c storeClient defaultPoll
          (exWorld [exName \<mapsto> ?c]) = (Return None, w1)"
       "apiserver w1 exName = Some obj"
       "Labels (ObjectMeta obj) (CustomResourceDefinitionSchemaVersionKey exK)
          = Some (CustomResourceDefinitionSchemaVersion exK)"
       "Versions (Spec obj) = Versions (Spec ?t)"
    using updateV1CRD_converges [OF a1 a2 a3 a4 a5 a6 a7 a8, where p = defaultPoll] by blast
  have r: "updateV1CRD exK exBaseline ?c storeClient defaultPoll (exWorld [exName \<mapsto> ?c])
             = (Return None, w1)"
    using h(1) by (simp add: exBaseline_def)
  have l: "Labels (ObjectMeta obj) ''io.cilium.k8s.crd.schema.version'' = Some ''1.22''"
    using h(3) by (simp add: exK_def)
  have s: "Versions (Spec obj) = [?v]"
    using h(4) by (simp add: exTemplate_def)
  have e: "exVersion ''1.21'' = Inr 121"
    by (simp add: exVersion_def)
  show ?thesis
    using e a8 r h(2) l s by blast
qed

text \<open>
  The claim as stated fails when the baseline carries no schema payload: the cluster
  object's label 1.21 is strictly less than the baseline 1.22, the run succeeds, and the
  stored object still carries the label 1.21, not the baseline's 1.22.
\<close>

theorem updateV1CRD_converges_counterexample:
  "exVersion ''1.21'' = Inr 121 \<and> LT exK 121 (comparableCRDSchemaVersion exK)
   \<and> fst (updateV1CRD exK exBaselineNoSchema (exCluster ''1.21'' []) storeClient defaultPoll
            (exWorld [exName \<mapsto> exCluster ''1.21'' []])) = Return None
   \<and> apiserver (snd (updateV1CRD exK exBaselineNoSchema (exCluster ''1.21'' []) storeClient
            defaultPoll (exWorld [exName \<mapsto> exCluster ''1.21'' []]))) exName
       = Some (exCluster ''1.21'' [])
   \<and> Labels (ObjectMeta (exCluster ''1.21'' [])) ''io.cilium.k8s.crd.schema.version''
       = Some ''1.21''
   \<and> Labels (ObjectMeta exBaselineNoSchema) ''io.cilium.k8s.crd.schema.version''
       = Some ''1.22''"
  by (simp add: ex_defs run_defs)

section \<open>Reconciling one kind: creation races and compensation\<close>

text \<open>
  Claim C5. For every kind, under either protocol: if the lookup finds no existing object
  (its error is "not found") and the following Create fails with "already exists",
  \<^verbatim>\<open>createUpdateCRD\<close> returns success at once. The calls of the run are the lookup and the
  creation and nothing else: no Update is issued and no poll is started, so neither the
  apply loop nor the wait loop is entered.
\<close>

theorem createUpdateCRD_already_exists:
  "(Get (ApiextensionsV1 cs) (Name (ObjectMeta crd)) (apiserver w) = ((got, e1), s1) \<longrightarrow>
    IsNotFound e1 \<longrightarrow>
    Create (ApiextensionsV1 cs) crd s1 = ((created, e2), s2) \<longrightarrow>
    IsAlreadyExists e2 \<longrightarrow>
    createUpdateCRD K C True cs crdName crd p w =
      (Return None,
       w\<lparr>apiserver := s2,
         calls := calls w @ [CallGet (Name (ObjectMeta crd)), CallCreate crd]\<rparr>))
   \<and>
   (convertToV1Beta1CRD C crd = Inr v1beta1CRD \<longrightarrow>
    GetV1beta1 (ApiextensionsV1beta1 cs) (Name (ObjectMetaV1beta1 v1beta1CRD)) (apiserver w)
      = ((got', e3), s3) \<longrightarrow>
    IsNotFound e3 \<longrightarrow>
    CreateV1beta1 (ApiextensionsV1beta1 cs) v1beta1CRD s3 = ((created', e4), s4) \<longrightarrow>
    IsAlreadyExists e4 \<longrightarrow>
    createUpdateCRD K C False cs crdName crd p w =
      (Return None,
       w\<lparr>apiserver := s4,
         calls := calls w @ [CallGetV1beta1 (Name (ObjectMetaV1beta1 v1beta1CRD)),
                             CallCreateV1beta1 v1beta1CRD]\<rparr>))"
  by (simp add: createUpdateCRD_def createUpdateV1beta1CRD_def doGet_def doCreate_def
        doGetV1beta1_def doCreateV1beta1_def)

text \<open>
  The claim at an empty control plane where another installer wins every creation, under
  the v1 protocol and under the v1beta1 protocol.
\<close>

theorem createUpdateCRD_already_exists_witness:
  "IsNotFound (Some (StatusError StatusReasonNotFound ''not found''))
   \<and> IsAlreadyExists (Some (StatusError StatusReasonAlreadyExists ''already exists''))
   \<and> createUpdateCRD exK exConversions True (exClientset exRaceClient) exName exBaseline
        defaultPoll (exWorld Map.empty)
      = (Return None,
         \<lparr> apiserver = Map.empty, calls = [CallGet exName, CallCreate exBaseline], now = 0 \<rparr>)
   \<and> fst (createUpdateCRD exK exConversions False (exClientset exRaceClient) exName exBaseline
        defaultPoll (exWorld Map.empty)) = Return None
   \<and> map isUpdate (calls (snd (createUpdateCRD exK exConversions False (exClientset exRaceClient)
        exName exBaseline defaultPoll (exWorld Map.empty)))) = [False, False]"
proof -
  let ?nf = "Some (StatusError StatusReasonNotFound ''not found'')"
  let ?ae = "Some (StatusError StatusReasonAlreadyExists ''already exists'')"
  let ?cs = "exClientset exRaceClient"
  let ?w = "exWorld (Map.empty :: string \<rightharpoonup> CustomResourceDefinition)"
  obtain b where b: "convertToV1Beta1CRD exConversions exBaseline = Inr b"
    by (simp add: convertToV1Beta1CRD_def exConversions_def)
  have z: "GetV1beta1 (ApiextensionsV1beta1 ?cs) (Name (ObjectMetaV1beta1 b)) (apiserver ?w)
             = ((emptyCRDV1beta1, ?nf), Map.empty)"
    by (simp add: exClientset_def exV1beta1Client_def exWorld_def)
  have z': "CreateV1beta1 (ApiextensionsV1beta1 ?cs) b Map.empty
              = ((emptyCRDV1beta1, ?ae), Map.empty)"
    by (simp add: exClientset_def exV1beta1Client_def)
  have g: "Get (ApiextensionsV1 ?cs) (Name (ObjectMeta exBaseline)) (apiserver ?w)
             = ((emptyCRD, ?nf), Map.empty)"
    by (simp add: ex_defs)
  have c: "Create (ApiextensionsV1 ?cs) exBaseline Map.empty = ((emptyCRD, ?ae), Map.empty)"
    by (simp add: exClientset_def exRaceClient_def)
  have nf: "IsNotFound ?nf" and ae: "IsAlreadyExists ?ae"
    by simp_all
  have n: "Name (ObjectMeta exBaseline) = exName"
    by (simp add: exBaseline_def constructV1CRD_def)
  note t = createUpdateCRD_already_exists [where K = exK and C = exConversions and cs = ?cs
      and crdName = exName and crd = exBaseline and p = defaultPoll and w = ?w]
  have v1: "createUpdateCRD exK exConversions True ?cs exName exBaseline defaultPoll ?w
      = (Return None,
         \<lparr> apiserver = Map.empty, calls = [CallGet exName, CallCreate exBaseline], now = 0 \<rparr>)"
    using t [THEN conjunct1, rule_format, OF g nf c ae] n by (simp add: exWorld_def)
  have v1beta1: "createUpdateCRD exK exConversions False ?cs exName exBaseline defaultPoll ?w
      = (Return None,
         ?w\<lparr>apiserver := Map.empty,
            calls := calls ?w @ [CallGetV1beta1 (Name (ObjectMetaV1beta1 b)),
                                 CallCreateV1beta1 b]\<rparr>)"
    using t [THEN conjunct2, rule_format, OF b z nf z' ae] .
  have f: "fst (createUpdateCRD exK exConversions False ?cs exName exBaseline defaultPoll ?w)
             = Return None"
    by (simp add: v1beta1)
  have m: "map isUpdate (calls (snd (createUpdateCRD exK exConversions False ?cs exName
             exBaseline defaultPoll ?w))) = [False, False]"
    unfolding v1beta1 by (simp add: exWorld_def)
  show ?thesis
    using nf ae v1 f m by blast
qed

text \<open>
  Claim C2, as amended. For every kind, a fatal failure of the wait-for-ready phase by
  timeout or by a refused name causes the reconciliation to attempt a compensating deletion
  of that kind's cluster definition object before it returns an error: the update phase
  having returned no error, and the wait having made \<open>k\<close> attempts that found nothing
  and fetched the kind's object, either all 120 attempts are used up or the next attempt
  finds a refused name, and then the last call of the run is the deletion by the kind's
  name and the run returns an error. A fatal failure of the update-if-stale phase is
  returned as it is, and no deletion is attempted. (A wait that ends because a fetch fails
  is not covered by either part. That the object fetched carries the kind's name holds of
  every control plane that answers a lookup with the object asked for.)
\<close>

theorem compensating_delete_only_after_wait:
  "(updateV1CRD K crd clusterCRD client p w = (Return None, mid) \<longrightarrow>
    pendingAttempts client (500 * Millisecond) k
      (clusterCRD, mid\<lparr>calls := calls mid @ [CallPoll (500 * Millisecond) (60 * Second)]\<rparr>)
      = Some (c, fin) \<longrightarrow>
    Name (ObjectMeta c) = Name (ObjectMeta crd) \<longrightarrow>
    (k = 120 \<or> (k < 120 \<and> (\<exists>e. rangeConditions (Conditions (StatusV1 c))
                                    = Some (False, Some e)))) \<longrightarrow>
    (\<exists>e s2 t. createUpdateCRD_rest K client crdName crd p (clusterCRD, None) w =
       (Return (Some e),
        fin\<lparr>apiserver := s2, calls := calls fin @ [CallDelete (Name (ObjectMeta crd))],
           now := t\<rparr>)))
   \<and>
   (updateV1CRD K crd' clusterCRD' client' p' w' = (Return (Some err'), fin') \<longrightarrow>
    createUpdateCRD_rest K client' crdName' crd' p' (clusterCRD', None) w'
      = (Return (Some err'), fin')
    \<and> filter isDelete (calls fin') = filter isDelete (calls w'))"
proof (intro conjI impI)
  let ?f = "waitForV1CRD_conditionFn client"
  let ?start = "mid\<lparr>calls := calls mid @ [CallPoll (500 * Millisecond) (60 * Second)]\<rparr>"
  assume u: "updateV1CRD K crd clusterCRD client p w = (Return None, mid)"
    and a: "pendingAttempts client (500 * Millisecond) k (clusterCRD, ?start) = Some (c, fin)"
    and n: "Name (ObjectMeta c) = Name (ObjectMeta crd)"
    and e: "k = 120 \<or> (k < 120 \<and> (\<exists>e. rangeConditions (Conditions (StatusV1 c))
                                    = Some (False, Some e)))"
  have q: "\<exists>err t. Poll p (500 * Millisecond) (60 * Second) ?f (clusterCRD, mid)
                    = (Return (Some err), (c, fin\<lparr>now := t\<rparr>))"
  proof (cases "k = 120")
    case True
    have "pollLoop (Suc 119) (500 * Millisecond) ?f (clusterCRD, ?start)
            = (Return (Some ErrWaitTimeout), (c, fin))"
      using pollLoop_timeout_after_pending [OF a] True by simp
    then have "Poll p (500 * Millisecond) (60 * Second) ?f (clusterCRD, mid)
            = (Return (Some ErrWaitTimeout), (c, fin\<lparr>now := now fin\<rparr>))"
      by (simp only: Poll_default) simp
    then show ?thesis by blast
  next
    case False
    then obtain err where
      k: "k < 120" and r: "rangeConditions (Conditions (StatusV1 c)) = Some (False, Some err)"
      using e by blast
    have split: "Suc 119 = k + Suc (119 - k)"
      using k by simp
    have "pollLoop (Suc 119) (500 * Millisecond) ?f (clusterCRD, ?start)
            = pollLoop (Suc (119 - k)) (500 * Millisecond) ?f (c, fin)"
      by (subst split) (rule pollLoop_after_pending [OF a])
    also have "\<dots> = (Return (Some err), (c, fin\<lparr>now := now fin + 500 * Millisecond\<rparr>))"
      by (simp add: ready_conditionFn_resolved [OF r])
    finally have "Poll p (500 * Millisecond) (60 * Second) ?f (clusterCRD, mid)
            = (Return (Some err), (c, fin\<lparr>now := now fin + 500 * Millisecond\<rparr>))"
      by (simp only: Poll_default)
    then show ?thesis by blast
  qed
  then obtain err t where
    q': "Poll p (500 * Millisecond) (60 * Second) ?f (clusterCRD, mid)
           = (Return (Some err), (c, fin\<lparr>now := t\<rparr>))"
    by blast
  obtain d s2 where d: "Delete client (Name (ObjectMeta crd)) (apiserver fin) = (d, s2)"
    by (cases "Delete client (Name (ObjectMeta crd)) (apiserver fin)")
  let ?e = "case d of None \<Rightarrow> Errorf_w ''error occurred waiting for CRD: '' err
                    | Some x \<Rightarrow> Errorf_w ''unable to delete CRD: '' x"
  have "waitForV1CRD crdName clusterCRD client p mid =
       (Return (Some ?e),
        fin\<lparr>apiserver := s2, calls := calls fin @ [CallDelete (Name (ObjectMeta crd))],
           now := t\<rparr>)"
    unfolding waitForV1CRD_def q' using n d
    by (cases d) (simp_all add: doDelete_def)
  then have "\<exists>e s2. waitForV1CRD crdName clusterCRD client p mid =
       (Return (Some e),
        fin\<lparr>apiserver := s2, calls := calls fin @ [CallDelete (Name (ObjectMeta crd))],
           now := t\<rparr>)"
    by blast
  then show "\<exists>e s2 t. createUpdateCRD_rest K client crdName crd p (clusterCRD, None) w =
       (Return (Some e),
        fin\<lparr>apiserver := s2, calls := calls fin @ [CallDelete (Name (ObjectMeta crd))],
           now := t\<rparr>)"
    using u by (auto simp: createUpdateCRD_rest_def)
next
  assume u: "updateV1CRD K crd' clusterCRD' client' p' w' = (Return (Some err'), fin')"
  then show "createUpdateCRD_rest K client' crdName' crd' p' (clusterCRD', None) w'
               = (Return (Some err'), fin')"
    by (simp add: createUpdateCRD_rest_def)
  show "filter isDelete (calls fin') = filter isDelete (calls w')"
    using updateV1CRD_no_delete [of K crd' clusterCRD' client' p' w'] u by simp
qed

text \<open>
  The amended claim at two runs. In the first the object found is up to date and without
  conditions, so that the update phase does nothing, while the control plane holds it with a
  refused name: the wait fetches once, finds the refusal and the object is deleted. In the
  second the update fails on a conflict, and nothing is deleted.
\<close>

theorem compensating_delete_only_after_wait_witness:
  "Suc 0 < (120::nat)
   \<and> rangeConditions (Conditions (StatusV1 (exCluster ''1.22'' exNameConflict)))
       = Some (False, Some (errorString ''ListKindConflict''))
   \<and> Name (ObjectMeta (exCluster ''1.22'' exNameConflict)) = Name (ObjectMeta exBaseline)
   \<and> (\<exists>e s2 t fin.
        calls fin = [CallPoll (500 * Millisecond) (60 * Second), CallGet exName]
      \<and> createUpdateCRD_rest exK storeClient exName exBaseline defaultPoll
          (exCluster ''1.22'' [], None)
          (exWorld [exName \<mapsto> exCluster ''1.22'' exNameConflict])
        = (Return (Some e),
           fin\<lparr>apiserver := s2, calls := calls fin @ [CallDelete exName], now := t\<rparr>))
   \<and> fst (createUpdateCRD_rest exK exConflictClient exName exBaseline defaultPoll
            (exCluster ''1.21'' [], None) (exWorld [exName \<mapsto> exCluster ''1.21'' []]))
       = Return (Some (StatusError StatusReasonConflict ''the object has been modified''))
   \<and> filter isDelete (calls (snd (updateV1CRD exK exBaseline (exCluster ''1.21'' [])
            exConflictClient defaultPoll (exWorld [exName \<mapsto> exCluster ''1.21'' []])))) = []"
proof -
  let ?found = "exCluster ''1.22'' []"
  let ?obs = "exCluster ''1.22'' exNameConflict"
  let ?init = "exWorld [exName \<mapsto> ?obs]"
  let ?seen = "?init\<lparr>calls := [CallPoll (500 * Millisecond) (60 * Second), CallGet exName],
                  now := 500 * Millisecond\<rparr>"
  let ?d = "exCluster ''1.21'' []"
  let ?v = "exWorld [exName \<mapsto> ?d]"
  let ?err = "StatusError StatusReasonConflict ''the object has been modified''"
  let ?u = "updateV1CRD exK exBaseline ?d exConflictClient defaultPoll ?v"
  have u0: "updateV1CRD exK exBaseline ?found storeClient defaultPoll ?init
              = (Return None, ?init)"
    by (simp add: updateV1CRD_def needsUpdateV1_def ex_defs)
  have a: "pendingAttempts storeClient (500 * Millisecond) (Suc 0)
             (?found, ?init\<lparr>calls := calls ?init @ [CallPoll (500 * Millisecond) (60 * Second)]\<rparr>)
           = Some (?obs, ?seen)"
    by (simp add: waitForV1CRD_conditionFn_def doGet_def storeClient_def exCluster_def
          exWorld_def exName_def)
  have n: "Name (ObjectMeta ?obs) = Name (ObjectMeta exBaseline)"
    by (simp add: exCluster_def exBaseline_def constructV1CRD_def)
  have b: "Name (ObjectMeta exBaseline) = exName"
    by (simp add: exBaseline_def constructV1CRD_def)
  have k: "Suc 0 < (120::nat)"
    by simp
  have r: "rangeConditions (Conditions (StatusV1 ?obs))
             = Some (False, Some (errorString ''ListKindConflict''))"
    by (simp add: exCluster_def exNameConflict_def NamesAccepted_def ConditionFalse_def
          Established_def New_def)
  have e: "Suc 0 = 120 \<or> (Suc 0 < 120
             \<and> (\<exists>e. rangeConditions (Conditions (StatusV1 ?obs)) = Some (False, Some e)))"
    using k r by blast
  have u: "?u = (Return (Some ?err), snd ?u)"
    by (rule prod_eqI) (simp_all add: ex_defs run_defs)
  have c0: "calls ?v = []"
    by (simp add: exWorld_def)
  have c1: "calls ?seen = [CallPoll (500 * Millisecond) (60 * Second), CallGet exName]"
    by simp
  note t = compensating_delete_only_after_wait [where p = defaultPoll and client = storeClient
      and clusterCRD = ?found and w = ?init and mid = ?init and k = "Suc 0" and c = ?obs
      and fin = ?seen and crdName = exName and K = exK and crd = exBaseline
      and crd' = exBaseline and clusterCRD' = ?d and client' = exConflictClient
      and p' = defaultPoll and w' = ?v and crdName' = exName and err' = ?err and fin' = "snd ?u"]
  have first: "\<exists>e s2 t. createUpdateCRD_rest exK storeClient exName exBaseline defaultPoll
                 (?found, None) ?init
             = (Return (Some e),
                ?seen\<lparr>apiserver := s2, calls := calls ?seen @ [CallDelete exName], now := t\<rparr>)"
    using t [THEN conjunct1, rule_format, OF u0 a n e] b by simp
  have first': "\<exists>e s2 t fin.
        calls fin = [CallPoll (500 * Millisecond) (60 * Second), CallGet exName]
      \<and> createUpdateCRD_rest exK storeClient exName exBaseline defaultPoll (?found, None) ?init
        = (Return (Some e),
           fin\<lparr>apiserver := s2, calls := calls fin @ [CallDelete exName], now := t\<rparr>)"
    using first c1 by blast
  have second: "createUpdateCRD_rest exK exConflictClient exName exBaseline defaultPoll
                  (?d, None) ?v = (Return (Some ?err), snd ?u)
           \<and> filter isDelete (calls (snd ?u)) = filter isDelete (calls ?v)"
    by (rule t [THEN conjunct2, rule_format, OF u])
  have b1: "fst (createUpdateCRD_rest exK exConflictClient exName exBaseline defaultPoll
                   (?d, None) ?v) = Return (Some ?err)"
    using second by simp
  have b2: "filter isDelete (calls (snd ?u)) = []"
    using second c0 by simp
  show ?thesis
    using k r n first' b1 b2 by blast
qed

text \<open>
  The claim as stated fails for the update phase: against a control plane that answers the
  write with a conflict, the reconciliation reaches the update (lookup, poll, fetch, write),
  returns the write's error and has issued no deletion.
\<close>

theorem fatal_update_failure_deletes_counterexample:
  "fst (createUpdateCRD exK exConversions True (exClientset exConflictClient) exName exBaseline
          defaultPoll (exWorld [exName \<mapsto> exCluster ''1.21'' []]))
     = Return (Some (StatusError StatusReasonConflict ''the object has been modified''))
   \<and> map isUpdate (calls (snd (createUpdateCRD exK exConversions True
          (exClientset exConflictClient) exName exBaseline defaultPoll
          (exWorld [exName \<mapsto> exCluster ''1.21'' []])))) = [False, False, False, True]
   \<and> filter isDelete (calls (snd (createUpdateCRD exK exConversions True
          (exClientset exConflictClient) exName exBaseline defaultPoll
          (exWorld [exName \<mapsto> exCluster ''1.21'' []])))) = []"
  by (simp add: ex_defs run_defs)

text \<open>
  Claim C1, as amended. When the ready-wait phase fails and the compensating deletion of the
  object fails too, the error returned by \<^verbatim>\<open>waitForV1CRD\<close> reports the deletion failure
  only: its message is "unable to delete CRD: " followed by the deletion error's message,
  and the errors it wraps are the deletion error and what that one wraps. The wait failure
  is not part of the returned error.
\<close>

theorem waitForV1CRD_delete_fails:
  assumes "Poll p (500 * Millisecond) (60 * Second) (waitForV1CRD_conditionFn client) (crd, w)
             = (Return (Some err), (c, w1))"
    and "Delete client (Name (ObjectMeta c)) (apiserver w1) = (Some deleteErr, s2)"
  shows "waitForV1CRD crdName crd client p w =
           (Return (Some (Errorf_w ''unable to delete CRD: '' deleteErr)),
            w1\<lparr>apiserver := s2, calls := calls w1 @ [CallDelete (Name (ObjectMeta c))]\<rparr>)
         \<and> Error (Errorf_w ''unable to delete CRD: '' deleteErr)
             = ''unable to delete CRD: '' @ Error deleteErr
         \<and> Unwrap (Errorf_w ''unable to delete CRD: '' deleteErr) = Some deleteErr
         \<and> chain (Errorf_w ''unable to delete CRD: '' deleteErr)
             = Errorf_w ''unable to delete CRD: '' deleteErr # chain deleteErr"
  using assms by (simp add: waitForV1CRD_def doDelete_def Errorf_w_def)

text \<open>
  The amended claim at a wait that fails on a refused name against a control plane whose
  deletions fail.
\<close>

theorem waitForV1CRD_delete_fails_witness:
  "fst (Poll defaultPoll (500 * Millisecond) (60 * Second)
          (waitForV1CRD_conditionFn exNoDeleteClient)
          (exCluster ''1.22'' exNameConflict,
           exWorld [exName \<mapsto> exCluster ''1.22'' exNameConflict]))
     = Return (Some (New ''ListKindConflict''))
   \<and> fst (Delete exNoDeleteClient exName [exName \<mapsto> exCluster ''1.22'' exNameConflict])
     = Some (StatusError StatusReasonUnknown ''etcd unavailable'')
   \<and> fst (waitForV1CRD exName (exCluster ''1.22'' exNameConflict) exNoDeleteClient defaultPoll
            (exWorld [exName \<mapsto> exCluster ''1.22'' exNameConflict]))
     = Return (Some (Errorf_w ''unable to delete CRD: ''
                       (StatusError StatusReasonUnknown ''etcd unavailable'')))"
proof -
  let ?c = "exCluster ''1.22'' exNameConflict"
  let ?m = "[exName \<mapsto> ?c]"
  let ?w = "exWorld ?m"
  let ?w1 = "?w\<lparr>calls := [CallPoll (500 * Millisecond) (60 * Second)],
                now := 500 * Millisecond\<rparr>"
  let ?de = "StatusError StatusReasonUnknown ''etcd unavailable''"
  have p: "Poll defaultPoll (500 * Millisecond) (60 * Second)
             (waitForV1CRD_conditionFn exNoDeleteClient) (?c, ?w)
           = (Return (Some (New ''ListKindConflict'')), (?c, ?w1))"
    by (simp add: ex_defs run_defs)
  have n: "Name (ObjectMeta ?c) = exName"
    by (simp add: exCluster_def)
  have d0: "Delete exNoDeleteClient exName ?m = (Some ?de, ?m)"
    by (simp add: exNoDeleteClient_def)
  have d: "Delete exNoDeleteClient (Name (ObjectMeta ?c)) (apiserver ?w1) = (Some ?de, ?m)"
    using d0 n by (simp add: exWorld_def)
  show ?thesis
    using p d0 waitForV1CRD_delete_fails [OF p d, where crdName = exName]
    by simp
qed

text \<open>
  The claim as stated fails there: the wait fails with the error "ListKindConflict", the
  deletion fails with "etcd unavailable", and the returned error is "unable to delete CRD:
  etcd unavailable". The wait failure is neither among the errors it wraps nor part of its
  message.
\<close>

theorem both_failures_reported_counterexample:
  "fst (Poll defaultPoll (500 * Millisecond) (60 * Second)
          (waitForV1CRD_conditionFn exNoDeleteClient)
          (exCluster ''1.22'' exNameConflict,
           exWorld [exName \<mapsto> exCluster ''1.22'' exNameConflict]))
     = Return (Some (errorString ''ListKindConflict''))
   \<and> fst (waitForV1CRD exName (exCluster ''1.22'' exNameConflict) exNoDeleteClient defaultPoll
            (exWorld [exName \<mapsto> exCluster ''1.22'' exNameConflict]))
     = Return (Some (wrapError ''unable to delete CRD: etcd unavailable''
                       (StatusError StatusReasonUnknown ''etcd unavailable'')))
   \<and> chain (wrapError ''unable to delete CRD: etcd unavailable''
              (StatusError StatusReasonUnknown ''etcd unavailable''))
     = [wrapError ''unable to delete CRD: etcd unavailable''
          (StatusError StatusReasonUnknown ''etcd unavailable''),
        StatusError StatusReasonUnknown ''etcd unavailable'']
   \<and> \<not> sublist (Error (errorString ''ListKindConflict''))
          (Error (wrapError ''unable to delete CRD: etcd unavailable''
                    (StatusError StatusReasonUnknown ''etcd unavailable'')))"
proof -
  have a: "\<not> sublist ''ListKindConflict'' ''unable to delete CRD: etcd unavailable''"
    by code_simp
  show ?thesis
    using a by (simp add: ex_defs run_defs)
qed

section \<open>The wait phase\<close>

text \<open>
  Claim C6. When the ready predicate observes a NamesAccepted condition with status false,
  at whichever attempt within the budget (after \<open>k < 120\<close> attempts that found nothing;
  the scan of the conditions reaches the entry, no condition before it being an
  Established=true or another NamesAccepted=false): the predicate reports an error whose
  message is the condition's reason, without fetching; the wait loop ends with that error at
  that attempt, however many attempts are left, so the wait has taken \<open>k + 1\<close> intervals
  and not the timeout; and \<^verbatim>\<open>waitForV1CRD\<close> has issued the poll, \<open>k\<close> fetches and
  exactly one deletion, that of the object observed. The error it returns embeds the reason
  when the deletion succeeds.
\<close>

theorem names_not_accepted_fails_fast:
  assumes "pendingAttempts client (500 * Millisecond) k
             (crd0, w0\<lparr>calls := calls w0 @ [CallPoll (500 * Millisecond) (60 * Second)]\<rparr>)
           = Some (crd, w)"
    and "k < 120"
    and "Conditions (StatusV1 crd) = before @ cond # after"
    and "list_all (\<lambda>x. \<not> (Type x = Established \<and> Status x = ConditionTrue)
                        \<and> \<not> (Type x = NamesAccepted \<and> Status x = ConditionFalse)) before"
    and "Type cond = NamesAccepted" and "Status cond = ConditionFalse"
    and "Delete client (Name (ObjectMeta crd)) (apiserver w) = (deleteErr, s)"
  shows "waitForV1CRD_conditionFn client (crd, w)
           = (Return (False, Some (New (Reason cond))), (crd, w))
       \<and> Error (New (Reason cond)) = Reason cond
       \<and> pollLoop (Suc n) interval (waitForV1CRD_conditionFn client) (crd, w)
           = (Return (Some (New (Reason cond))), (crd, w\<lparr>now := now w + interval\<rparr>))
       \<and> waitForV1CRD crdName crd0 client p w0
           = (Return (Some (case deleteErr of
                              None \<Rightarrow> Errorf_w ''error occurred waiting for CRD: ''
                                        (New (Reason cond))
                            | Some d \<Rightarrow> Errorf_w ''unable to delete CRD: '' d)),
              w\<lparr>apiserver := s,
                calls := calls w @ [CallDelete (Name (ObjectMeta crd))],
                now := now w + 500 * Millisecond\<rparr>)
       \<and> (\<exists>gets. calls w = calls w0 @ CallPoll (500 * Millisecond) (60 * Second) # gets
              \<and> length gets = k \<and> list_all isGet gets)
       \<and> now w + 500 * Millisecond = now w0 + int (Suc k) * (500 * Millisecond)
       \<and> Error (Errorf_w ''error occurred waiting for CRD: '' (New (Reason cond)))
           = ''error occurred waiting for CRD: '' @ Reason cond"
proof -
  let ?w0 = "w0\<lparr>calls := calls w0 @ [CallPoll (500 * Millisecond) (60 * Second)]\<rparr>"
  have r: "rangeConditions (Conditions (StatusV1 crd)) = Some (False, Some (New (Reason cond)))"
    using rangeConditions_conflict [OF assms(4,5,6)] assms(3) by simp
  have c: "waitForV1CRD_conditionFn client (crd, v)
           = (Return (False, Some (New (Reason cond))), (crd, v))" for v
    using r by (simp add: waitForV1CRD_conditionFn_def)
  have l: "pollLoop (Suc j) i (waitForV1CRD_conditionFn client) (crd, v)
           = (Return (Some (New (Reason cond))), (crd, v\<lparr>now := now v + i\<rparr>))" for j i v
    by (simp add: c)
  have split: "Suc 119 = k + Suc (119 - k)"
    using assms(2) by simp
  have "pollLoop (Suc 119) (500 * Millisecond) (waitForV1CRD_conditionFn client) (crd0, ?w0)
          = pollLoop (Suc (119 - k)) (500 * Millisecond) (waitForV1CRD_conditionFn client) (crd, w)"
    by (subst split) (rule pollLoop_after_pending [OF assms(1)])
  then have q: "Poll p (500 * Millisecond) (60 * Second) (waitForV1CRD_conditionFn client)
                  (crd0, w0)
           = (Return (Some (New (Reason cond))), (crd, w\<lparr>now := now w + 500 * Millisecond\<rparr>))"
    by (simp only: Poll_default l)
  have d: "waitForV1CRD crdName crd0 client p w0
           = (Return (Some (case deleteErr of
                              None \<Rightarrow> Errorf_w ''error occurred waiting for CRD: ''
                                        (New (Reason cond))
                            | Some d \<Rightarrow> Errorf_w ''unable to delete CRD: '' d)),
              w\<lparr>apiserver := s,
                calls := calls w @ [CallDelete (Name (ObjectMeta crd))],
                now := now w + 500 * Millisecond\<rparr>)"
    unfolding waitForV1CRD_def q using assms(7)
    by (cases deleteErr) (simp_all add: doDelete_def)
  obtain gets where
    g: "calls w = calls ?w0 @ gets" "length gets = k" "list_all isGet gets"
       "now w = now ?w0 + int k * (500 * Millisecond)"
    using pendingAttempts_calls [OF assms(1)] by blast
  have h: "\<exists>gets. calls w = calls w0 @ CallPoll (500 * Millisecond) (60 * Second) # gets
              \<and> length gets = k \<and> list_all isGet gets"
    using g(1,2,3) by simp
  have t: "now w + 500 * Millisecond = now w0 + int (Suc k) * (500 * Millisecond)"
    using g(4) by (simp add: algebra_simps)
  show ?thesis
    using c [of w] l [of n interval w] d h t by (simp add: New_def Errorf_w_def)
qed

text \<open>
  The claim at a wait that starts from an object without conditions (as a creation returns
  it) while the control plane holds the object with a first condition NamesAccepted=false
  and the reason "ListKindConflict": the first attempt fetches, the second observes the
  condition; the run ends after two intervals with an error that carries the reason, and
  its calls are the poll, one fetch and one deletion.
\<close>

theorem names_not_accepted_fails_fast_witness:
  "Suc 0 < (120::nat)
   \<and> Conditions (StatusV1 (exCluster ''1.22'' exNameConflict))
     = [] @ \<lparr> Type = ''NamesAccepted'', Status = ''False'', Reason = ''ListKindConflict'' \<rparr>
          # [\<lparr> Type = ''Established'', Status = ''False'', Reason = ''NotAccepted'' \<rparr>]
   \<and> waitForV1CRD exName (exCluster ''1.22'' []) storeClient defaultPoll
        (exWorld [exName \<mapsto> exCluster ''1.22'' exNameConflict])
     = (Return (Some (wrapError ''error occurred waiting for CRD: ListKindConflict''
                        (errorString ''ListKindConflict''))),
        \<lparr> apiserver = Map.empty,
          calls = [CallPoll (500 * Millisecond) (60 * Second), CallGet exName,
                   CallDelete exName],
          now = 1000 * Millisecond \<rparr>)"
proof -
  let ?cond = "\<lparr> Type = ''NamesAccepted'', Status = ''False'', Reason = ''ListKindConflict'' \<rparr>"
  let ?after = "[\<lparr> Type = ''Established'', Status = ''False'', Reason = ''NotAccepted'' \<rparr>]"
  let ?start = "exCluster ''1.22'' []"
  let ?obs = "exCluster ''1.22'' exNameConflict"
  let ?init = "exWorld [exName \<mapsto> ?obs]"
  let ?seen = "?init\<lparr>calls := [CallPoll (500 * Millisecond) (60 * Second), CallGet exName],
               now := 500 * Millisecond\<rparr>"
  have a0: "pendingAttempts storeClient (500 * Millisecond) (Suc 0)
              (?start, ?init\<lparr>calls := calls ?init @ [CallPoll (500 * Millisecond) (60 * Second)]\<rparr>)
            = Some (?obs, ?seen)"
    by (simp add: waitForV1CRD_conditionFn_def doGet_def storeClient_def exCluster_def
          exWorld_def exName_def)
  have k: "Suc 0 < (120::nat)"
    by simp
  have a1: "Conditions (StatusV1 ?obs) = [] @ ?cond # ?after"
    by (simp add: exCluster_def exNameConflict_def)
  have a2: "list_all (\<lambda>x. \<not> (Type x = Established \<and> Status x = ConditionTrue)
                        \<and> \<not> (Type x = NamesAccepted \<and> Status x = ConditionFalse)) []"
    by simp
  have a3: "Type ?cond = NamesAccepted"
    by (simp add: NamesAccepted_def)
  have a4: "Status ?cond = ConditionFalse"
    by (simp add: ConditionFalse_def)
  have a5: "Delete storeClient (Name (ObjectMeta ?obs)) (apiserver ?seen) = (None, Map.empty)"
    by (simp add: storeClient_def exCluster_def exWorld_def fun_eq_iff)
  have n: "Name (ObjectMeta ?obs) = exName"
    by (simp add: exCluster_def)
  show ?thesis
    using k a1 n names_not_accepted_fails_fast [OF a0 k a1 a2 a3 a4 a5, where crdName = exName
      and p = defaultPoll and n = 0 and interval = 0]
    by (simp add: exWorld_def New_def Errorf_w_def)
qed

text \<open>
  Claim C8. Both loops hand the poller an interval of 500 ms and a timeout of 60 s. Against
  a control plane whose objects are never ready and never in conflict, and whose lookups
  never fail, the ready predicate never reports success or an error. The run of
  \<^verbatim>\<open>waitForV1CRD\<close> is then exactly this: one poll started with 500 ms and 60 s, 120
  attempts that each come 500 ms after the one before and each fetch the object, the
  timeout error when 60 s have passed since the start and not before, one deletion, and
  an error returned (wrapping the timeout error unless the deletion fails), never success.
  The run of \<^verbatim>\<open>updateV1CRD\<close>, once its loop is entered, starts one poll with 500 ms and
  60 s and makes its first attempt, a fetch, 500 ms later. The number of attempts is that of
  the poller as modelled: the timeout divided by the interval.
\<close>

theorem poll_cadence_and_timeout:
  assumes "\<forall>name s. \<exists>obj s1. Get client name s = ((obj, None), s1)
              \<and> rangeConditions (Conditions (StatusV1 obj)) = None"
    and "rangeConditions (Conditions (StatusV1 crd)) = None"
    and "Versions (Spec baseline) = v0 # rest" and "Schema v0 \<noteq> None"
    and "needsUpdateV1 K clusterCRD = Return True"
  shows "(\<exists>c1 w1 gets e s2.
            pendingAttempts client (500 * Millisecond) 120
              (crd, w\<lparr>calls := calls w @ [CallPoll (500 * Millisecond) (60 * Second)]\<rparr>)
              = Some (c1, w1)
          \<and> calls w1 = calls w @ CallPoll (500 * Millisecond) (60 * Second) # gets
          \<and> length gets = 120 \<and> list_all isGet gets
          \<and> now w1 = now w + 60 * Second
          \<and> waitForV1CRD crdName crd client p w
              = (Return (Some e),
                 w1\<lparr>apiserver := s2, calls := calls w1 @ [CallDelete (Name (ObjectMeta c1))]\<rparr>)
          \<and> (e = Errorf_w ''error occurred waiting for CRD: '' ErrWaitTimeout
               \<or> (\<exists>d. e = Errorf_w ''unable to delete CRD: '' d)))
       \<and> (\<exists>r w3 more. updateV1CRD K baseline clusterCRD client' p w = (r, w3)
          \<and> calls w3 = calls w @ CallPoll (500 * Millisecond) (60 * Second)
                          # CallGet (Name (ObjectMeta baseline)) # more
          \<and> filter isDelete more = []
          \<and> now w3 = now w + 500 * Millisecond)
       \<and> 500 * Millisecond = 500000000 \<and> 60 * Second = 60000000000"
proof -
  let ?w = "w\<lparr>calls := calls w @ [CallPoll (500 * Millisecond) (60 * Second)]\<rparr>"
  obtain c1 w1 where
    a: "pendingAttempts client (500 * Millisecond) (Suc 119) (crd, ?w) = Some (c1, w1)"
    using pendingAttempts_never_ready [OF assms(1) assms(2), of "500 * Millisecond" "Suc 119" ?w]
    by blast
  obtain gets where
    g: "calls w1 = calls ?w @ gets" "length gets = Suc 119" "list_all isGet gets"
       "now w1 = now ?w + int (Suc 119) * (500 * Millisecond)"
    using pendingAttempts_calls [OF a] by blast
  have a': "pendingAttempts client (500 * Millisecond) 120 (crd, ?w) = Some (c1, w1)"
    using a by simp
  have k: "calls w1 = calls w @ CallPoll (500 * Millisecond) (60 * Second) # gets"
    using g(1) by simp
  have n: "length gets = 120"
    using g(2) by simp
  have t: "now w1 = now w + 60 * Second"
    using g(4) by (simp only: budget_default) simp
  have q: "Poll p (500 * Millisecond) (60 * Second) (waitForV1CRD_conditionFn client) (crd, w)
             = (Return (Some ErrWaitTimeout), (c1, w1))"
    by (simp only: Poll_default pollLoop_timeout_after_pending [OF a])
  obtain d s2 where d: "Delete client (Name (ObjectMeta c1)) (apiserver w1) = (d, s2)"
    by (cases "Delete client (Name (ObjectMeta c1)) (apiserver w1)")
  let ?e = "case d of None \<Rightarrow> Errorf_w ''error occurred waiting for CRD: '' ErrWaitTimeout
                    | Some x \<Rightarrow> Errorf_w ''unable to delete CRD: '' x"
  have run: "waitForV1CRD crdName crd client p w
               = (Return (Some ?e),
                  w1\<lparr>apiserver := s2, calls := calls w1 @ [CallDelete (Name (ObjectMeta c1))]\<rparr>)"
    unfolding waitForV1CRD_def q using d
    by (cases d) (simp_all add: doDelete_def)
  have shape: "?e = Errorf_w ''error occurred waiting for CRD: '' ErrWaitTimeout
               \<or> (\<exists>x. ?e = Errorf_w ''unable to delete CRD: '' x)"
    by (cases d) auto
  have first: "\<exists>c1 w1 gets e s2.
            pendingAttempts client (500 * Millisecond) 120 (crd, ?w) = Some (c1, w1)
          \<and> calls w1 = calls w @ CallPoll (500 * Millisecond) (60 * Second) # gets
          \<and> length gets = 120 \<and> list_all isGet gets
          \<and> now w1 = now w + 60 * Second
          \<and> waitForV1CRD crdName crd client p w
              = (Return (Some e),
                 w1\<lparr>apiserver := s2, calls := calls w1 @ [CallDelete (Name (ObjectMeta c1))]\<rparr>)
          \<and> (e = Errorf_w ''error occurred waiting for CRD: '' ErrWaitTimeout
               \<or> (\<exists>d. e = Errorf_w ''unable to delete CRD: '' d))"
    using a' k n g(3) t run shape by blast
  have second: "\<exists>r w3 more. updateV1CRD K baseline clusterCRD client' p w = (r, w3)
          \<and> calls w3 = calls w @ CallPoll (500 * Millisecond) (60 * Second)
                          # CallGet (Name (ObjectMeta baseline)) # more
          \<and> filter isDelete more = []
          \<and> now w3 = now w + 500 * Millisecond"
    using updateV1CRD_entered [OF assms(3) assms(4) assms(5), of client' p w] by blast
  have third: "500 * Millisecond = 500000000 \<and> 60 * Second = 60000000000"
    by (simp add: Millisecond_def Second_def)
  show ?thesis
    using first second third by blast
qed

text \<open>
  The claim at a control plane whose lookups always return an object without conditions:
  the wait makes its 120 fetches, returns an error when 60 s (in nanoseconds) have passed
  and ends with a deletion, and the apply loop on an object written by baseline 1.21
  starts with the same cadence.
\<close>

theorem poll_cadence_and_timeout_witness:
  "(\<forall>name s. \<exists>obj s1. Get exPendingClient name s = ((obj, None), s1)
              \<and> rangeConditions (Conditions (StatusV1 obj)) = None)
   \<and> rangeConditions (Conditions (StatusV1 (exCluster ''1.22'' []))) = None
   \<and> needsUpdateV1 exK (exCluster ''1.21'' []) = Return True
   \<and> (\<exists>c1 w1 gets e s2.
         pendingAttempts exPendingClient 500000000 120
           (exCluster ''1.22'' [],
            (exWorld [exName \<mapsto> exCluster ''1.22'' []])
              \<lparr>calls := [CallPoll 500000000 60000000000]\<rparr>) = Some (c1, w1)
       \<and> calls w1 = CallPoll 500000000 60000000000 # gets
       \<and> length gets = 120 \<and> list_all isGet gets
       \<and> now w1 = 60000000000
       \<and> waitForV1CRD exName (exCluster ''1.22'' []) exPendingClient defaultPoll
            (exWorld [exName \<mapsto> exCluster ''1.22'' []])
          = (Return (Some e),
             w1\<lparr>apiserver := s2, calls := calls w1 @ [CallDelete (Name (ObjectMeta c1))]\<rparr>)
       \<and> (e = Errorf_w ''error occurred waiting for CRD: '' ErrWaitTimeout
            \<or> (\<exists>d. e = Errorf_w ''unable to delete CRD: '' d)))
   \<and> (\<exists>r w3 more. updateV1CRD exK exBaseline (exCluster ''1.21'' []) storeClient defaultPoll
                 (exWorld [exName \<mapsto> exCluster ''1.22'' []]) = (r, w3)
         \<and> calls w3 = CallPoll 500000000 60000000000 # CallGet exName # more
         \<and> filter isDelete more = []
         \<and> now w3 = 500000000)"
proof -
  let ?obj = "exCluster ''1.22'' []"
  let ?init = "exWorld [exName \<mapsto> ?obj]"
  let ?v = "\<lparr> VersionName = ''v2'', Schema = Some ''openAPIV3Schema 1.22'' \<rparr>"
  have a1: "\<forall>name s. \<exists>obj s1. Get exPendingClient name s = ((obj, None), s1)
              \<and> rangeConditions (Conditions (StatusV1 obj)) = None"
    by (simp add: exPendingClient_def exCluster_def)
  have a2: "rangeConditions (Conditions (StatusV1 ?obj)) = None"
    by (simp add: exCluster_def)
  have a3: "Versions (Spec exBaseline) = ?v # []"
    by (simp add: ex_defs)
  have a4: "Schema ?v \<noteq> None"
    by simp
  have a5: "needsUpdateV1 exK (exCluster ''1.21'' []) = Return True"
    by (simp add: needsUpdateV1_def ex_defs)
  have z: "now ?init = 0" "calls ?init = []"
    by (simp_all add: exWorld_def)
  have m: "500 * Millisecond = 500000000" "60 * Second = 60000000000"
    by (simp_all add: Millisecond_def Second_def)
  have b: "Name (ObjectMeta exBaseline) = exName"
    by (simp add: exBaseline_def constructV1CRD_def)
  note t = poll_cadence_and_timeout [OF a1 a2 a3 a4 a5, where p = defaultPoll and w = ?init
      and crdName = exName and client' = storeClient]
  have first: "\<exists>c1 w1 gets e s2.
         pendingAttempts exPendingClient 500000000 120
           (?obj, ?init\<lparr>calls := [CallPoll 500000000 60000000000]\<rparr>) = Some (c1, w1)
       \<and> calls w1 = CallPoll 500000000 60000000000 # gets
       \<and> length gets = 120 \<and> list_all isGet gets
       \<and> now w1 = 60000000000
       \<and> waitForV1CRD exName ?obj exPendingClient defaultPoll ?init
          = (Return (Some e),
             w1\<lparr>apiserver := s2, calls := calls w1 @ [CallDelete (Name (ObjectMeta c1))]\<rparr>)
       \<and> (e = Errorf_w ''error occurred waiting for CRD: '' ErrWaitTimeout
            \<or> (\<exists>d. e = Errorf_w ''unable to delete CRD: '' d))"
    using t [THEN conjunct1] z by (simp add: m)
  have second: "\<exists>r w3 more. updateV1CRD exK exBaseline (exCluster ''1.21'' []) storeClient
                  defaultPoll ?init = (r, w3)
         \<and> calls w3 = CallPoll 500000000 60000000000 # CallGet exName # more
         \<and> filter isDelete more = []
         \<and> now w3 = 500000000"
    using t [THEN conjunct2, THEN conjunct1] z b by (simp add: m)
  show ?thesis
    using a1 a2 a5 first second by blast
qed

end
